theory Spec2Isabelle
  imports Main
begin

section \<open>JavaScript values and the store\<close>

text \<open>
  The sources are ES modules (strict code). Values are modelled as far as the verified
  functions look at them: the primitives, template-literal strings (the literal text with
  the interpolated values kept unrendered, since rendering calls \<open>toString\<close> of
  classes that are not part of the sources), arrays, references to plain objects (value
  bags), references to \<open>RingaEvent\<close> instances, functions (compared by identity, as
  \<open>indexOf\<close> does) and caught exceptions. Numbers are integers here: \<open>NaN\<close> and
  fractions do not occur in the verified functions.

  Naming: a leading underscore of the source is written \<open>u_\<close> (\<open>_done\<close> is
  \<open>u_done\<close>, \<open>__caught\<close> is \<open>uu_caught\<close>).
\<close>

type_synonym addr = nat

datatype val =
    Undefined
  | Null
  | Bool bool
  | Num int
  | Str string
  | Text string "val list"
  | Arr "val list"
  | Ref addr
  | Ev addr
  | Fun nat
  | Exn error
and error =
    TypeError
  | ReferenceError string
  | Thrown val
  | Error_RingaEvent_undefined_type
  | Error_caught_controller_not_defined
  | Error_uncatch_controller_not_found
  | Error_done_controller_not_defined
  | Error_same_listener_twice
  | Error_property_not_provided string "string list" val
  | Error_executee_not_supported string
  | Error_thread_already_running
  | Error_thread_no_executors
  | Error_thread_without_RingaEvent

text \<open>JavaScript's \<open>ToBoolean\<close>. Every template literal of the sources has literal text,
  so a \<open>Text\<close> is never the empty string.\<close>

fun truthy :: "val \<Rightarrow> bool" where
  "truthy Undefined = False"
| "truthy Null = False"
| "truthy (Bool b) = b"
| "truthy (Num n) = (n \<noteq> 0)"
| "truthy (Str s) = (s \<noteq> [])"
| "truthy (Text s vs) = True"
| "truthy (Arr vs) = True"
| "truthy (Ref a) = True"
| "truthy (Ev a) = True"
| "truthy (Fun f) = True"
| "truthy (Exn e) = True"

text \<open>What a \<open>catch (error)\<close> clause binds: the thrown value itself.\<close>

fun caught_value :: "error \<Rightarrow> val" where
  "caught_value (Thrown v) = v"
| "caught_value e = Exn e"

text \<open>The notification objects \<open>{type, detail, error}\<close> kept in \<open>dispatchedEvents\<close>; the
  object handed to a listener at emission time has a fourth property \<open>kill\<close>
  (\<open>n_kill = None\<close>: the property is absent).\<close>

record notification =
  n_type :: string
  n_detail :: val
  n_error :: val
  n_kill :: "val option"

record RingaEvent =
  name :: val
  detail :: val
  u_type :: val
  u_bubbles :: val
  u_cancelable :: val
  dispatched :: bool
  controller :: val
  u_errors :: "val list option"
  requireCatch :: val
  event :: val
  listeners :: "string \<rightharpoonup> nat list"
  dispatchedEvents :: "notification list"
  catchers :: "val list"
  u_catchers :: "val list"
  uu_caught :: bool
  u_threads :: "val list"
  killed :: bool
  u_threadTimedOut :: bool
  u_lastPromiseResult :: val
  u_lastPromiseError :: val
  lastEvent :: val
  u_target :: val
  customEvent :: val
  dispatchStack :: val

text \<open>Everything a call can do beyond changing the store: console output, calls of
  functions that the callers supply (listeners, the pipeline's done and fail callbacks),
  timers, and calls into classes that are not part of the sources.\<close>

datatype effect =
    Console_log val
  | Console_error val
  | Listener_call nat notification
  | DoneHandler_call val val
  | FailHandler_call val val val val
  | SetTimeout_executeNext val
  | Execute val
  | Destroy val
  | InspectorDispatch string val

record world =
  bags :: "addr \<rightharpoonup> (string \<rightharpoonup> val)"
  events :: "addr \<rightharpoonup> RingaEvent"
  out :: "effect list"
  eventIx_count :: nat
  next_ref :: addr

text \<open>A call either returns a value or throws; the store keeps every change made before
  the throw, as the objects of the program do.\<close>

type_synonym ('s, 'a) call = "'s \<Rightarrow> (error + 'a) \<times> 's"

definition return :: "'a \<Rightarrow> ('s, 'a) call" where
  "return x = (\<lambda>s. (Inr x, s))"

definition throw :: "error \<Rightarrow> ('s, 'a) call" where
  "throw e = (\<lambda>s. (Inl e, s))"

definition andThen :: "('s, 'a) call \<Rightarrow> ('a \<Rightarrow> ('s, 'b) call) \<Rightarrow> ('s, 'b) call" where
  "andThen f g = (\<lambda>s. case f s of (Inl e, s') \<Rightarrow> (Inl e, s') | (Inr x, s') \<Rightarrow> g x s')"

text \<open>Property access on a value: a plain object with no entry in \<open>bags\<close> has no own
  property yet; the other values have none of the properties read here.\<close>

definition bag_of :: "world \<Rightarrow> addr \<Rightarrow> (string \<rightharpoonup> val)" where
  "bag_of w a = (case bags w a of Some b \<Rightarrow> b | None \<Rightarrow> Map.empty)"

definition get_prop :: "world \<Rightarrow> val \<Rightarrow> string \<Rightarrow> val" where
  "get_prop w v k =
     (case v of
        Ref a \<Rightarrow> (case bag_of w a k of Some x \<Rightarrow> x | None \<Rightarrow> Undefined)
      | _ \<Rightarrow> Undefined)"

definition set_prop :: "addr \<Rightarrow> string \<Rightarrow> val \<Rightarrow> world \<Rightarrow> world" where
  "set_prop a k v w = w\<lparr>bags := (bags w)(a \<mapsto> (bag_of w a)(k \<mapsto> v))\<rparr>"

definition delete_prop :: "addr \<Rightarrow> string \<Rightarrow> world \<Rightarrow> world" where
  "delete_prop a k w = w\<lparr>bags := (bags w)(a \<mapsto> (bag_of w a)(k := None))\<rparr>"

definition emit :: "effect \<Rightarrow> world \<Rightarrow> world" where
  "emit x w = w\<lparr>out := out w @ [x]\<rparr>"

section \<open>RingaEvent: the last promise result and error\<close>

text \<open>
  \<open>get lastPromiseResult()\<close> and \<open>get lastPromiseError()\<close>: the own value when it is
  truthy, else the getter of \<open>this.lastEvent\<close> when that is truthy, else
  \<open>undefined\<close>. The recursion follows the \<open>lastEvent\<close> references through the store
  and need not end (an event may be its own \<open>lastEvent\<close>): \<open>None\<close> is a getter that
  never returns. A truthy \<open>lastEvent\<close> that is not a \<open>RingaEvent\<close> of the store has no
  such property.
\<close>

partial_function (option) lastPromiseResult :: "(addr \<rightharpoonup> RingaEvent) \<Rightarrow> RingaEvent \<Rightarrow> val option" where
  "lastPromiseResult es this =
     (if truthy (u_lastPromiseResult this) then Some (u_lastPromiseResult this)
      else if truthy (lastEvent this) then
        (case lastEvent this of
           Ev a \<Rightarrow> (case es a of Some cause \<Rightarrow> lastPromiseResult es cause | None \<Rightarrow> Some Undefined)
         | _ \<Rightarrow> Some Undefined)
      else Some Undefined)"

partial_function (option) lastPromiseError :: "(addr \<rightharpoonup> RingaEvent) \<Rightarrow> RingaEvent \<Rightarrow> val option" where
  "lastPromiseError es this =
     (if truthy (u_lastPromiseError this) then Some (u_lastPromiseError this)
      else if truthy (lastEvent this) then
        (case lastEvent this of
           Ev a \<Rightarrow> (case es a of Some cause \<Rightarrow> lastPromiseError es cause | None \<Rightarrow> Some Undefined)
         | _ \<Rightarrow> Some Undefined)
      else Some Undefined)"


text \<open>\<open>set lastPromiseResult(value)\<close> and \<open>set lastPromiseError(value)\<close>.\<close>

definition set_lastPromiseResult :: "val \<Rightarrow> RingaEvent \<Rightarrow> RingaEvent" where
  "set_lastPromiseResult v this = this\<lparr>u_lastPromiseResult := v\<rparr>"

definition set_lastPromiseError :: "val \<Rightarrow> RingaEvent \<Rightarrow> RingaEvent" where
  "set_lastPromiseError v this = this\<lparr>u_lastPromiseError := v\<rparr>"

section \<open>RingaEvent: the constructor\<close>



definition RingaEvent_fields :: "val \<Rightarrow> val \<Rightarrow> val \<Rightarrow> val \<Rightarrow> val \<Rightarrow> val \<Rightarrow> val \<Rightarrow> RingaEvent" where
  "RingaEvent_fields nm type detail' bubbles cancelable event' requireCatch' =
     \<lparr> name = nm,
       detail = detail',
       u_type = type,
       u_bubbles = bubbles,
       u_cancelable = cancelable,
       dispatched = False,
       controller = Undefined,
       u_errors = None,
       requireCatch = requireCatch',
       event = event',
       listeners = Map.empty,
       dispatchedEvents = [],
       catchers = [],
       u_catchers = [],
       uu_caught = False,
       u_threads = [],
       killed = False,
       u_threadTimedOut = False,
       u_lastPromiseResult = Undefined,
       u_lastPromiseError = Undefined,
       lastEvent = Undefined,
       u_target = Undefined,
       customEvent = Undefined,
       dispatchStack = Undefined \<rparr>"



section \<open>RingaEvent: catching, completion and notifications\<close>

text \<open>The methods take the address of the handle they are called on; on anything else
  they throw.\<close>

definition with_event :: "addr \<Rightarrow> (RingaEvent \<Rightarrow> (world, 'a) call) \<Rightarrow> (world, 'a) call" where
  "with_event this f = (\<lambda>w. case events w this of Some ev \<Rightarrow> f ev w | None \<Rightarrow> (Inl TypeError, w))"

definition update_event :: "addr \<Rightarrow> (RingaEvent \<Rightarrow> RingaEvent) \<Rightarrow> (world, unit) call" where
  "update_event this f =
     (\<lambda>w. case events w this of
            Some ev \<Rightarrow> (Inr (), w\<lparr>events := (events w)(this \<mapsto> f ev)\<rparr>)
          | None \<Rightarrow> (Inl TypeError, w))"

text \<open>\<open>get debug()\<close>: \<open>this.detail && this.detail.debug\<close>.\<close>

definition debug :: "world \<Rightarrow> RingaEvent \<Rightarrow> val" where
  "debug w this = (if truthy (detail this) then get_prop w (detail this) ''debug'' else detail this)"

text \<open>
  \<open>addDebug(message, level = 0)\<close>. Nothing happens while \<open>debug\<close> is \<open>undefined\<close>, or
  is a number that \<open>level\<close> does not exceed. Otherwise the message goes to the console and
  is pushed on \<open>detail.$debug\<close> (an array made on first use). Where \<open>debug\<close> is not
  \<open>undefined\<close>, \<open>detail\<close> is either a plain object or a falsy value on which the
  property access (\<open>null\<close>) or the strict-mode assignment (a primitive) throws. The
  stack parser called for the console entry is an external library and is taken to return.
\<close>

definition addDebug :: "val \<Rightarrow> int \<Rightarrow> addr \<Rightarrow> (world, unit) call" where
  "addDebug message level this = with_event this (\<lambda>ev w.
     if debug w ev = Undefined then (Inr (), w)
     else if (case debug w ev of Num n \<Rightarrow> level \<le> n | _ \<Rightarrow> False) then (Inr (), w)
     else
       (let w1 = emit (Console_log message) w in
        case detail ev of
          Ref d \<Rightarrow>
            (case (if truthy (get_prop w1 (Ref d) ''$debug'') then get_prop w1 (Ref d) ''$debug''
                   else Arr []) of
               Arr ms \<Rightarrow> (Inr (), set_prop d ''$debug'' (Arr (ms @ [message])) w1)
             | _ \<Rightarrow> (Inl TypeError, w1))
        | _ \<Rightarrow> (Inl TypeError, w1)))"

text \<open>\<open>Array.prototype.indexOf\<close> (\<open>None\<close> is \<open>-1\<close>) compares with \<open>===\<close>: by value on
  primitives, by identity on objects and functions, which is equality of the model's
  references. \<open>splice1 ix xs\<close> is \<open>xs.splice(ix, 1)\<close>: the removed elements and what is
  left; the start \<open>-1\<close> counts from the end.\<close>

fun indexOf :: "'a list \<Rightarrow> 'a \<Rightarrow> nat option" where
  "indexOf [] x = None"
| "indexOf (y # ys) x = (if y = x then Some 0 else map_option Suc (indexOf ys x))"

definition splice1 :: "nat option \<Rightarrow> 'a list \<Rightarrow> 'a list \<times> 'a list" where
  "splice1 ix xs =
     (let start = (case ix of Some i \<Rightarrow> i | None \<Rightarrow> length xs - 1)
      in (take 1 (drop start xs), take start xs @ drop (Suc start) xs))"

definition first_or_undefined :: "val list \<Rightarrow> val" where
  "first_or_undefined xs = (case xs of [] \<Rightarrow> Undefined | x # _ \<Rightarrow> x)"

text \<open>\<open>_caught(controller)\<close>\<close>

definition u_caught :: "bool \<Rightarrow> val \<Rightarrow> addr \<Rightarrow> (world, unit) call" where
  "u_caught DEV ctrl this =
     (if DEV \<and> \<not> truthy ctrl then throw Error_caught_controller_not_defined
      else
        andThen (update_event this (\<lambda>ev. ev\<lparr>uu_caught := True, catchers := catchers ev @ [ctrl]\<rparr>)) (\<lambda>_.
        addDebug (Text ''Caught by '' [ctrl]) 0 this))"

text \<open>\<open>_uncatch(controller)\<close>\<close>

definition u_uncatch :: "bool \<Rightarrow> val \<Rightarrow> addr \<Rightarrow> (world, unit) call" where
  "u_uncatch DEV ctrl this = with_event this (\<lambda>ev.
     let ix = indexOf (catchers ev) ctrl in
     if DEV \<and> ix = None then throw Error_uncatch_controller_not_found
     else
       andThen (update_event this (\<lambda>ev.
          let (removed, rest) = splice1 ix (catchers ev)
          in ev\<lparr>catchers := rest, u_catchers := u_catchers ev @ [first_or_undefined removed]\<rparr>)) (\<lambda>_.
       addDebug (Text ''Uncaught by '' [ctrl]) 0 this))"

text \<open>
  \<open>_dispatchEvent(type, detail, error, kill)\<close>. \<open>this.listeners\<close> starts as \<open>{}\<close>, so
  a type that names a member of \<open>Object.prototype\<close> and has no listener list of its own
  reads that inherited member, which has no \<open>forEach\<close> and no \<open>indexOf\<close>.
  Listeners are functions of the caller: the model records each call and takes the
  listener to return without calling back into the handle.
\<close>

definition Object_prototype_names :: "string list" where
  "Object_prototype_names =
     [''constructor'', ''__defineGetter__'', ''__defineSetter__'', ''hasOwnProperty'',
      ''__lookupGetter__'', ''__lookupSetter__'', ''isPrototypeOf'', ''propertyIsEnumerable'',
      ''toString'', ''valueOf'', ''__proto__'', ''toLocaleString'']"

definition RingaEvent_DONE :: string where "RingaEvent_DONE = ''done''"
definition RingaEvent_FAIL :: string where "RingaEvent_FAIL = ''fail''"
definition RingaEvent_PREHOOK :: string where "RingaEvent_PREHOOK = ''prehook''"

definition u_dispatchEvent :: "string \<Rightarrow> val \<Rightarrow> val \<Rightarrow> val \<Rightarrow> addr \<Rightarrow> (world, unit) call" where
  "u_dispatchEvent type detail' error' kill this = with_event this (\<lambda>ev.
     andThen (update_event this (\<lambda>ev. ev\<lparr>dispatchedEvents := dispatchedEvents ev @
         [\<lparr>n_type = type, n_detail = detail', n_error = error', n_kill = None\<rparr>]\<rparr>)) (\<lambda>_.
     case listeners ev type of
       Some ls \<Rightarrow>
         (\<lambda>w. (Inr (), w\<lparr>out := out w @
            map (\<lambda>listener. Listener_call listener
                   \<lparr>n_type = type, n_detail = detail', n_error = error', n_kill = Some kill\<rparr>) ls\<rparr>))
     | None \<Rightarrow> if type \<in> set Object_prototype_names then throw TypeError else return ()))"

text \<open>\<open>_fail(controller, error, killed)\<close>\<close>

definition u_fail :: "bool \<Rightarrow> val \<Rightarrow> val \<Rightarrow> val \<Rightarrow> addr \<Rightarrow> (world, unit) call" where
  "u_fail DEV ctrl error' killed' this =
     andThen (if truthy killed' then u_uncatch DEV ctrl this else return ()) (\<lambda>_.
     andThen (addDebug (Str ''Fail'') 0 this) (\<lambda>_.
     u_dispatchEvent RingaEvent_FAIL Undefined error' killed' this))"

text \<open>\<open>pushError(error)\<close> and \<open>fail(error)\<close>\<close>

definition pushError :: "val \<Rightarrow> addr \<Rightarrow> (world, unit) call" where
  "pushError error' this =
     update_event this (\<lambda>ev. ev\<lparr>u_errors :=
        Some ((case u_errors ev of None \<Rightarrow> [] | Some errs \<Rightarrow> errs) @ [error'])\<rparr>)"

definition fail :: "val \<Rightarrow> addr \<Rightarrow> (world, unit) call" where
  "fail error' this = pushError error' this"

text \<open>
  \<open>_done(controller)\<close>. In the branch for recorded errors the call
  \<open>this._dispatchEvent(RingaEvent.FAIL, undefined, error)\<close> reads \<open>error\<close>, which is
  no parameter, local or import of the method's module and no global of the platform:
  evaluating the argument throws a ReferenceError before \<open>_dispatchEvent\<close> is entered.
\<close>

definition u_done :: "bool \<Rightarrow> val \<Rightarrow> addr \<Rightarrow> (world, unit) call" where
  "u_done DEV ctrl this =
     (if DEV \<and> \<not> truthy ctrl then throw Error_done_controller_not_defined
      else
        andThen (u_uncatch DEV ctrl this) (\<lambda>_.
        andThen (addDebug (Str ''Done'') 0 this) (\<lambda>_.
        with_event this (\<lambda>ev.
          if length (catchers ev) = 0 then
            (if (case u_errors ev of Some errs \<Rightarrow> length errs \<noteq> 0 | None \<Rightarrow> False)
             then throw (ReferenceError ''error'')
             else u_dispatchEvent RingaEvent_DONE Undefined Undefined Undefined this)
          else return ()))))"

text \<open>
  \<open>addListener(eventType, handler)\<close>, returning \<open>this\<close>. The event type is a string and
  the handler a function here, so the development-only \<open>typeof eventType\<close> guard has no
  branch in the model.
\<close>

definition addListener :: "string \<Rightarrow> nat \<Rightarrow> addr \<Rightarrow> (world, addr) call" where
  "addListener eventType handler this = with_event this (\<lambda>ev.
     case (case listeners ev eventType of
             Some ls \<Rightarrow> Some ls
           | None \<Rightarrow> if eventType \<in> set Object_prototype_names then None else Some []) of
       None \<Rightarrow> throw TypeError
     | Some ls \<Rightarrow>
         andThen (update_event this (\<lambda>ev. ev\<lparr>listeners := (listeners ev)(eventType \<mapsto> ls)\<rparr>)) (\<lambda>_.
         if indexOf ls handler \<noteq> None then throw Error_same_listener_twice
         else
           andThen (update_event this (\<lambda>ev.
              ev\<lparr>listeners := (listeners ev)(eventType \<mapsto> ls @ [handler])\<rparr>)) (\<lambda>_.
           (\<lambda>w. (Inr this, w\<lparr>out := out w @
              map (Listener_call handler)
                (filter (\<lambda>d. n_type d = eventType) (dispatchedEvents ev))\<rparr>)))))"

section \<open>CommandFactory\<close>

text \<open>
  The executee of a factory, as far as \<open>build\<close> looks at it: a primitive, or an object
  with the answers to the tests \<open>build\<close> makes (whether it is callable, whether its
  \<open>then\<close> member is a function, whether its \<open>prototype\<close> is an instance of
  \<open>CommandAbstract\<close>, whether it is an instance of \<open>Array\<close> and of
  \<open>RingEventFactory\<close>). Primitives have no \<open>then\<close> member; symbols are not
  modelled.
\<close>

record js_object =
  identity :: nat
  callable :: bool
  then_is_function :: bool
  prototype_instanceof_CommandAbstract :: bool
  instanceof_Array :: bool
  instanceof_RingEventFactory :: bool

datatype executee =
    E_undefined
  | E_null
  | E_boolean bool
  | E_number int
  | E_string string
  | E_object js_object

fun typeof :: "executee \<Rightarrow> string" where
  "typeof E_undefined = ''undefined''"
| "typeof E_null = ''object''"
| "typeof (E_boolean b) = ''boolean''"
| "typeof (E_number n) = ''number''"
| "typeof (E_string s) = ''string''"
| "typeof (E_object obj) = (if callable obj then ''function'' else ''object'')"

text \<open>\<open>typeof this.executee.then === 'function'\<close>: reading a property of \<open>undefined\<close> or
  \<open>null\<close> throws a TypeError.\<close>

fun typeof_then_is_function :: "executee \<Rightarrow> error + bool" where
  "typeof_then_is_function E_undefined = Inl TypeError"
| "typeof_then_is_function E_null = Inl TypeError"
| "typeof_then_is_function (E_object obj) = Inr (then_is_function obj)"
| "typeof_then_is_function _ = Inr False"

fun is_command_class :: "executee \<Rightarrow> bool" where
  "is_command_class (E_object obj) = prototype_instanceof_CommandAbstract obj"
| "is_command_class _ = False"

fun is_Array :: "executee \<Rightarrow> bool" where
  "is_Array (E_object obj) = instanceof_Array obj"
| "is_Array _ = False"

fun is_RingEventFactory :: "executee \<Rightarrow> bool" where
  "is_RingEventFactory (E_object obj) = instanceof_RingEventFactory obj"
| "is_RingEventFactory _ = False"

text \<open>
  What \<open>build\<close> returns. The wrapper classes, \<open>RingEventFactory\<close> and the command
  classes are not part of the sources, so an executor is the constructor call that made
  it: the class and its arguments. For an instance of a command class these are the
  thread and the argument names handed to \<open>new\<close>, followed by the names that \<open>build\<close>
  assigns to \<open>instance.argNames\<close> afterwards (\<open>None\<close>: no assignment).
\<close>

datatype event_factory = New_RingEventFactory string | The_executee executee

datatype command =
    CommandEventWrapper val event_factory
  | CommandPromiseWrapper val executee
  | CommandFunctionWrapper val executee
  | CommandsParallelWrapper val executee
  | Command_instance executee val "string list option" "string list option"

record CommandFactory =
  executee :: executee
  argNames :: "string list option"

text \<open>\<open>constructor(executee)\<close>\<close>

definition CommandFactory_new :: "executee \<Rightarrow> CommandFactory" where
  "CommandFactory_new e = \<lparr>executee = e, argNames = None\<rparr>"

text \<open>\<open>cacheArguments(instance)\<close>. \<open>getArgNames\<close> (util/function.js) is not part of the
  sources: it is a parameter, giving the declared argument names of the \<open>execute\<close>
  method of an instance of the class.\<close>

definition cacheArguments :: "(executee \<Rightarrow> string list) \<Rightarrow> executee \<Rightarrow> CommandFactory \<Rightarrow> CommandFactory" where
  "cacheArguments getArgNames instance_class this = this\<lparr>argNames := Some (getArgNames instance_class)\<rparr>"

text \<open>\<open>build(commandThread)\<close>, the tests in the order of the source. The message of the
  final error is modelled by the \<open>typeof\<close> it names.\<close>

definition build :: "(executee \<Rightarrow> string list) \<Rightarrow> val \<Rightarrow> (CommandFactory, command) call" where
  "build getArgNames commandThread = (\<lambda>this.
     case executee this of
       E_string s \<Rightarrow> (Inr (CommandEventWrapper commandThread (New_RingEventFactory s)), this)
     | e \<Rightarrow>
        (case typeof_then_is_function e of
           Inl err \<Rightarrow> (Inl err, this)
         | Inr True \<Rightarrow> (Inr (CommandPromiseWrapper commandThread e), this)
         | Inr False \<Rightarrow>
             if typeof e = ''function'' then
               (if is_command_class e then
                  (case argNames this of
                     None \<Rightarrow>
                       (let this' = cacheArguments getArgNames e this
                        in (Inr (Command_instance e commandThread None (argNames this')), this'))
                   | Some names \<Rightarrow> (Inr (Command_instance e commandThread (Some names) None), this))
                else (Inr (CommandFunctionWrapper commandThread e), this))
             else if is_Array e then (Inr (CommandsParallelWrapper commandThread e), this)
             else if typeof e = ''object'' \<and> is_RingEventFactory e
               then (Inr (CommandEventWrapper commandThread (The_executee e)), this)
             else (Inl (Error_executee_not_supported (typeof e)), this)))"

section \<open>Argument resolution (util/executors.js)\<close>









section \<open>Thread: the sequential runner (Thread.js)\<close>

text \<open>
  The executor classes and the factories of a thread are not part of the sources. An
  executor is an object (its reference) together with what its \<open>_execute(done, fail)\<close>
  does before it returns: nothing more (it completes later, if at all), a call of the
  done-handler, a call of the fail-handler, or a throw. A factory of
  \<open>threadFactory.all\<close> is given by the behaviour of the executor that its \<open>build\<close>
  makes.
\<close>

datatype behaviour = Stays_pending | Calls_done | Calls_fail val val | Throws error

record thread_executor =
  e_ref :: addr
  e_behaviour :: behaviour

record ThreadFactory =
  tf_all :: "behaviour list"
  tf_controller_blockRingaEvents :: val

text \<open>
  The fields of a thread. \<open>all\<close> is the content of the container that the thread
  inherits, in order (the debug helper of the sources reads it as \<open>thread._list\<close>);
  \<open>destroyed\<close> is the flag of the base object; \<open>index\<close> is \<open>None\<close> while it is
  no number (\<open>undefined\<close> before the first run); \<open>thread_ref\<close> is the identity of
  the thread object.
\<close>

record Thread =
  thread_ref :: addr
  thread_name :: val
  options :: val
  threadFactory :: ThreadFactory
  running :: bool
  children :: "val list"
  all :: "thread_executor list"
  ringaEvent :: val
  doneHandler :: val
  failHandler :: val
  index :: "nat option"
  error :: val
  destroyed :: bool

text \<open>
  Modelled from the spec: \<open>RingaHashArray\<close>, the base class of \<open>Thread\<close>, is not part
  of the sources. The spec describes it as an insertion-ordered container with a
  membership test and removal: \<open>add\<close> appends to \<open>all\<close>, \<open>has\<close> tests membership
  and \<open>remove\<close> takes the element out.
\<close>

definition add_item :: "thread_executor \<Rightarrow> Thread \<Rightarrow> Thread" where
  "add_item e this = this\<lparr>all := all this @ [e]\<rparr>"

definition has_item :: "thread_executor \<Rightarrow> Thread \<Rightarrow> bool" where
  "has_item e this = (e \<in> set (all this))"

definition remove_item :: "thread_executor \<Rightarrow> Thread \<Rightarrow> Thread" where
  "remove_item e this = this\<lparr>all := removeAll e (all this)\<rparr>"

text \<open>\<open>constructor(name, threadFactory, options)\<close>\<close>

definition Thread_new :: "val \<Rightarrow> ThreadFactory \<Rightarrow> val \<Rightarrow> world \<Rightarrow> Thread \<times> world" where
  "Thread_new name' threadFactory' options' w =
     (\<lparr> thread_ref = next_ref w, thread_name = name', options = options',
         threadFactory = threadFactory', running = False, children = [], all = [],
         ringaEvent = Undefined, doneHandler = Undefined, failHandler = Undefined,
         index = None, error = Undefined, destroyed = False \<rparr>,
      w\<lparr>next_ref := Suc (next_ref w)\<rparr>)"

text \<open>\<open>this.all[i]\<close> (\<open>None\<close>: \<open>undefined\<close>) and the value of an executor variable.\<close>

definition all_at :: "Thread \<Rightarrow> nat option \<Rightarrow> thread_executor option" where
  "all_at this i = (case i of Some n \<Rightarrow> if n < length (all this) then Some (all this ! n) else None
                    | None \<Rightarrow> None)"

definition executor_val :: "thread_executor option \<Rightarrow> val" where
  "executor_val x = (case x of Some e \<Rightarrow> Ref (e_ref e) | None \<Rightarrow> Undefined)"

text \<open>\<open>buildExecutors()\<close>: each build makes a new object.\<close>

fun buildExecutors_forEach :: "behaviour list \<Rightarrow> (Thread \<times> world, unit) call" where
  "buildExecutors_forEach [] = return ()"
| "buildExecutors_forEach (executorFactory # rest) =
     andThen (\<lambda>(this, w). (Inr (),
        (add_item \<lparr>e_ref = next_ref w, e_behaviour = executorFactory\<rparr> this,
         w\<lparr>next_ref := Suc (next_ref w)\<rparr>)))
       (\<lambda>_. buildExecutors_forEach rest)"

definition buildExecutors :: "(Thread \<times> world, unit) call" where
  "buildExecutors = (\<lambda>(this, w). buildExecutors_forEach (tf_all (threadFactory this)) (this, w))"

text \<open>\<open>kill()\<close>\<close>

definition kill :: "Thread \<Rightarrow> Thread" where
  "kill this = this\<lparr>running := False\<rparr>"

text \<open>\<open>removeExecutor(executor)\<close>\<close>

definition removeExecutor :: "bool \<Rightarrow> thread_executor option \<Rightarrow> (Thread \<times> world, unit) call" where
  "removeExecutor DEV executor = (\<lambda>(this, w).
     let w1 = (if DEV \<and> \<not> truthy (tf_controller_blockRingaEvents (threadFactory this))
               then emit (InspectorDispatch ''ringaExecutorEnd'' (executor_val executor)) w
               else w)
     in (Inr (),
         (case executor of
            Some e \<Rightarrow> if has_item e this then remove_item e this else this
          | None \<Rightarrow> this),
         w1))"

text \<open>\<open>_finCouldNotFindError(error)\<close>: nothing when the thread is destroyed, else one
  \<open>console.error\<close> (the message is modelled by its head, the index and the error).\<close>

definition u_finCouldNotFindError :: "val \<Rightarrow> (Thread \<times> world, unit) call" where
  "u_finCouldNotFindError error' = (\<lambda>(this, w).
     if destroyed this then (Inr (), (this, w))
     else (Inr (), (this,
       emit (Console_error (Text ''Thread: could not find executor to destroy it!''
               [case index this of Some i \<Rightarrow> Num (int i) | None \<Rightarrow> Undefined, error'])) w)))"

text \<open>
  The calls into the dispatch handle and into the functions of the caller.
  \<open>this.ringaEvent.addDebug(message)\<close> throws a TypeError when \<open>ringaEvent\<close> is no
  handle; \<open>if (this.ringaEvent.detail._promise) delete this.ringaEvent.detail._promise\<close>
  throws when \<open>detail\<close> is \<open>undefined\<close> or \<open>null\<close>. The done and fail callbacks are
  recorded as effects and taken to return without calling back into the thread; calling
  what is no function throws.
\<close>

definition ringaEvent_addDebug :: "val \<Rightarrow> (Thread \<times> world, unit) call" where
  "ringaEvent_addDebug message = (\<lambda>(this, w).
     case ringaEvent this of
       Ev a \<Rightarrow> (case addDebug message 0 a w of (r, w') \<Rightarrow> (r, (this, w')))
     | _ \<Rightarrow> (Inl TypeError, (this, w)))"

definition delete_detail_promise :: "(Thread \<times> world, unit) call" where
  "delete_detail_promise = (\<lambda>(this, w).
     case ringaEvent this of
       Ev a \<Rightarrow>
         (case events w a of
            Some ev \<Rightarrow>
              (case detail ev of
                 Undefined \<Rightarrow> (Inl TypeError, (this, w))
               | Null \<Rightarrow> (Inl TypeError, (this, w))
               | Ref d \<Rightarrow>
                   if truthy (get_prop w (Ref d) ''_promise'')
                   then (Inr (), (this, delete_prop d ''_promise'' w))
                   else (Inr (), (this, w))
               | _ \<Rightarrow> (Inr (), (this, w)))
          | None \<Rightarrow> (Inl TypeError, (this, w)))
     | _ \<Rightarrow> (Inl TypeError, (this, w)))"

definition call_doneHandler :: "(Thread \<times> world, unit) call" where
  "call_doneHandler = (\<lambda>(this, w).
     case doneHandler this of
       Fun f \<Rightarrow> (Inr (), (this, emit (DoneHandler_call (Fun f) (Ref (thread_ref this))) w))
     | _ \<Rightarrow> (Inl TypeError, (this, w)))"

definition call_failHandler :: "val \<Rightarrow> val \<Rightarrow> (Thread \<times> world, unit) call" where
  "call_failHandler error' kill' = (\<lambda>(this, w).
     case failHandler this of
       Fun f \<Rightarrow> (Inr (), (this, emit (FailHandler_call (Fun f) (Ref (thread_ref this)) error' kill') w))
     | _ \<Rightarrow> (Inl TypeError, (this, w)))"

text \<open>
  Modelled from the spec: \<open>destroy\<close>, a method of the base object of the executors, is
  not part of the sources. The spec has the handler destroy the executor that just
  finished; the call is recorded as an effect and returns the executor. With it, the head
  of both handlers is \<open>if (!this.all[this.index]) this._finCouldNotFindError(error);
  else executor = this.all[this.index].destroy(true);\<close>, returning \<open>executor\<close>.
\<close>

definition destroy_current :: "val \<Rightarrow> (Thread \<times> world, thread_executor option) call" where
  "destroy_current error' = (\<lambda>(this, w).
     case all_at this (index this) of
       None \<Rightarrow> andThen (u_finCouldNotFindError error') (\<lambda>_. return None) (this, w)
     | Some e \<Rightarrow> (Inr (Some e), (this, emit (Destroy (Ref (e_ref e))) w)))"

text \<open>\<open>_executorDoneHandler()\<close>\<close>

definition u_executorDoneHandler :: "bool \<Rightarrow> (Thread \<times> world, unit) call" where
  "u_executorDoneHandler DEV =
     andThen (destroy_current Undefined) (\<lambda>executor.
     andThen (ringaEvent_addDebug (Text ''Done: '' [executor_val executor])) (\<lambda>_.
     andThen (\<lambda>(this, w). (Inr (), (this\<lparr>index := map_option Suc (index this)\<rparr>, w))) (\<lambda>_.
     andThen delete_detail_promise (\<lambda>_.
     (\<lambda>(this, w).
        if (case index this of Some i \<Rightarrow> i < length (all this) | None \<Rightarrow> False)
        then (Inr (), (this, emit (SetTimeout_executeNext (Ref (thread_ref this))) w))
        else andThen call_doneHandler (\<lambda>_. removeExecutor DEV executor) (this, w))))))"

text \<open>\<open>_executorFailHandler(error, kill)\<close>\<close>

definition u_executorFailHandler :: "bool \<Rightarrow> val \<Rightarrow> val \<Rightarrow> (Thread \<times> world, unit) call" where
  "u_executorFailHandler DEV error' kill' =
     andThen (destroy_current error') (\<lambda>executor.
     andThen (ringaEvent_addDebug (Text ''Fail: '' [executor_val executor])) (\<lambda>_.
     andThen (\<lambda>(this, w). (Inr (), (this\<lparr>error := error'\<rparr>, w))) (\<lambda>_.
     andThen (call_failHandler error' kill') (\<lambda>_.
     andThen delete_detail_promise (\<lambda>_.
     if \<not> truthy kill' then u_executorDoneHandler DEV
     else removeExecutor DEV executor)))))"

text \<open>\<open>executor._execute(done, fail)\<close>, with the handlers bound to the thread; on
  \<open>undefined\<close> the call throws a TypeError.\<close>

definition u_execute :: "bool \<Rightarrow> thread_executor option \<Rightarrow> (Thread \<times> world, unit) call" where
  "u_execute DEV executor =
     (case executor of
        None \<Rightarrow> throw TypeError
      | Some e \<Rightarrow>
          andThen (\<lambda>(this, w). (Inr (), (this, emit (Execute (Ref (e_ref e))) w))) (\<lambda>_.
          case e_behaviour e of
            Stays_pending \<Rightarrow> return ()
          | Calls_done \<Rightarrow> u_executorDoneHandler DEV
          | Calls_fail error' kill' \<Rightarrow> u_executorFailHandler DEV error' kill'
          | Throws err \<Rightarrow> throw err))"

text \<open>\<open>executeNext()\<close>: the guarded block covers the debug entry and \<open>_execute\<close>;
  what it throws is caught and goes to the fail-handler, with no \<open>kill\<close> argument.\<close>

definition executeNext :: "bool \<Rightarrow> (Thread \<times> world, unit) call" where
  "executeNext DEV = (\<lambda>(this, w).
     let executor = all_at this (index this) in
     andThen (if (case index this of Some i \<Rightarrow> 0 < i | None \<Rightarrow> False)
              then removeExecutor DEV (all_at this (map_option (\<lambda>i. i - 1) (index this)))
              else return ()) (\<lambda>_ s.
       case andThen (ringaEvent_addDebug (Text ''Executing: '' [executor_val executor]))
                    (\<lambda>_. u_execute DEV executor) s of
         (Inl err, s') \<Rightarrow> u_executorFailHandler DEV (caught_value err) Undefined s'
       | (Inr u, s') \<Rightarrow> (Inr u, s'))
     (this, w))"

text \<open>\<open>run(ringaEvent, doneHandler, failHandler)\<close>\<close>

definition run :: "bool \<Rightarrow> val \<Rightarrow> val \<Rightarrow> val \<Rightarrow> (Thread \<times> world, unit) call" where
  "run DEV ringaEvent' doneHandler' failHandler' = (\<lambda>(this, w).
     if DEV \<and> running this then (Inl Error_thread_already_running, (this, w))
     else if DEV \<and> length (tf_all (threadFactory this)) = 0
       then (Inl Error_thread_no_executors, (this, w))
     else if DEV \<and> \<not> truthy ringaEvent' then (Inl Error_thread_without_RingaEvent, (this, w))
     else
       andThen buildExecutors (\<lambda>_.
       andThen (\<lambda>(this, w). (Inr (), (this\<lparr>index := Some 0\<rparr>, w))) (\<lambda>_.
       executeNext DEV))
       (this\<lparr>ringaEvent := ringaEvent', doneHandler := doneHandler', failHandler := failHandler'\<rparr>, w))"

text \<open>The effects by which an executor gets started: the call of its \<open>_execute\<close> and the
  timer that will call \<open>executeNext\<close>. A call is quiet when it keeps the index and adds
  no such effect; it ignores the running flag when it does the same whatever the flag is.\<close>

fun starts_executor :: "effect \<Rightarrow> bool" where
  "starts_executor (Execute e) = True"
| "starts_executor (SetTimeout_executeNext t) = True"
| "starts_executor _ = False"


definition ignores_running :: "(Thread \<times> world, 'a) call \<Rightarrow> bool" where
  "ignores_running f = (\<forall>this w b. f (this\<lparr>running := b\<rparr>, w) =
      (case f (this, w) of (r, (this', w')) \<Rightarrow> (r, (this'\<lparr>running := b\<rparr>, w'))))"

text \<open>The handlers registered for a notification type: \<open>this.listeners[type] || []\<close>.\<close>

definition registered :: "RingaEvent \<Rightarrow> string \<Rightarrow> nat list" where
  "registered ev ty = (case listeners ev ty of Some ls \<Rightarrow> ls | None \<Rightarrow> [])"

section \<open>Example states\<close>


definition ex_event :: RingaEvent where
  "ex_event = RingaEvent_fields (Text ''RingaEvent[, ]'' [Str ''load'', Num 0]) (Str ''load'') (Ref 0)
     (Bool True) (Bool True) Undefined (Bool True)"

definition ex_world :: world where
  "ex_world = \<lparr>bags = [0 \<mapsto> [''ringaEvent'' \<mapsto> Ev 1]], events = [1 \<mapsto> ex_event], out = [],
     eventIx_count = 1, next_ref = 2\<rparr>"

definition ex_cause :: RingaEvent where
  "ex_cause = ex_event\<lparr>u_lastPromiseResult := Str ''ok'', u_lastPromiseError := Str ''bad''\<rparr>"


text \<open>
  A handle with one listener for \<open>done\<close> (7) and one for \<open>fail\<close> (8), caught by the
  controllers \<open>Ref 10\<close> and \<open>Ref 11\<close>; then an error is recorded with \<open>pushError\<close>
  and both controllers report done.
\<close>

definition two_catchers :: "(world, unit) call" where
  "two_catchers =
     andThen (addListener RingaEvent_DONE 7 1) (\<lambda>_.
     andThen (addListener RingaEvent_FAIL 8 1) (\<lambda>_.
     andThen (u_caught True (Ref 10) 1) (\<lambda>_.
     u_caught True (Ref 11) 1)))"

definition recorded_error_then_done :: "(world, unit) call" where
  "recorded_error_then_done =
     andThen two_catchers (\<lambda>_.
     andThen (pushError (Str ''boom'') 1) (\<lambda>_.
     andThen (u_done True (Ref 10) 1) (\<lambda>_.
     u_done True (Ref 11) 1)))"

text \<open>
  A thread of two executors that stay pending, made in the example store for a controller
  that does not block inspector events; the thread after
  \<open>run(event, doneHandler, failHandler)\<close> in a development build, with its first executor
  in flight; and that thread after a teardown that set its \<open>destroyed\<close> flag and took
  the executors out.
\<close>

definition ex_factory :: "behaviour list \<Rightarrow> ThreadFactory" where
  "ex_factory bs = \<lparr>tf_all = bs, tf_controller_blockRingaEvents = Undefined\<rparr>"

definition ex_thread :: "behaviour list \<Rightarrow> Thread \<times> world" where
  "ex_thread bs = Thread_new (Str ''thread'') (ex_factory bs) Undefined ex_world"

definition started_thread :: "Thread \<times> world" where
  "started_thread =
     (\<lparr>thread_ref = 2, thread_name = Str ''thread'', options = Undefined,
       threadFactory = ex_factory [Stays_pending, Stays_pending],
       running = False, children = [],
       all = [\<lparr>e_ref = 3, e_behaviour = Stays_pending\<rparr>, \<lparr>e_ref = 4, e_behaviour = Stays_pending\<rparr>],
       ringaEvent = Ev 1, doneHandler = Fun 100, failHandler = Fun 101, index = Some 0,
       error = Undefined, destroyed = False\<rparr>,
      ex_world\<lparr>out := [Execute (Ref 3)], next_ref := 5\<rparr>)"

definition torn_down_thread :: "Thread \<times> world" where
  "torn_down_thread = ((fst started_thread)\<lparr>destroyed := True, all := []\<rparr>, snd started_thread)"

section \<open>Properties of the getters\<close>

lemma lastPromiseResult_range:
  assumes "lastPromiseResult es this = Some v"
  shows "truthy v \<or> v = Undefined"
  by (rule lastPromiseResult.raw_induct [OF _ assms])
     (auto split: if_splits val.splits option.splits)

lemma lastPromiseError_range:
  assumes "lastPromiseError es this = Some v"
  shows "truthy v \<or> v = Undefined"
  by (rule lastPromiseError.raw_induct [OF _ assms])
     (auto split: if_splits val.splits option.splits)

text \<open>
  Claim C10. After the setter has stored a falsy value other than \<open>undefined\<close>
  (\<open>false\<close>, \<open>0\<close>, the empty string, \<open>null\<close>) the getter behaves as if nothing
  were stored: with a causing event it returns what the getter of the causing event
  returns, without one it returns \<open>undefined\<close>, and it never returns the stored value.
  The same holds for the last promise error.
\<close>

theorem lastPromise_falsy_is_unset:
  assumes "\<not> truthy v" and "v \<noteq> Undefined"
  shows "(lastEvent this = Ev a \<and> es a = Some cause \<longrightarrow>
            lastPromiseResult es (set_lastPromiseResult v this) = lastPromiseResult es cause) \<and>
         (\<not> truthy (lastEvent this) \<longrightarrow>
            lastPromiseResult es (set_lastPromiseResult v this) = Some Undefined) \<and>
         lastPromiseResult es (set_lastPromiseResult v this) \<noteq> Some v \<and>
         (lastEvent this = Ev a \<and> es a = Some cause \<longrightarrow>
            lastPromiseError es (set_lastPromiseError v this) = lastPromiseError es cause) \<and>
         (\<not> truthy (lastEvent this) \<longrightarrow>
            lastPromiseError es (set_lastPromiseError v this) = Some Undefined) \<and>
         lastPromiseError es (set_lastPromiseError v this) \<noteq> Some v"
proof (intro conjI impI)
  assume "lastEvent this = Ev a \<and> es a = Some cause"
  with assms show "lastPromiseResult es (set_lastPromiseResult v this) = lastPromiseResult es cause"
    by (subst lastPromiseResult.simps) (simp add: set_lastPromiseResult_def)
next
  assume "\<not> truthy (lastEvent this)"
  with assms show "lastPromiseResult es (set_lastPromiseResult v this) = Some Undefined"
    by (subst lastPromiseResult.simps) (simp add: set_lastPromiseResult_def)
next
  show "lastPromiseResult es (set_lastPromiseResult v this) \<noteq> Some v"
    using lastPromiseResult_range [of es "set_lastPromiseResult v this" v] assms by blast
next
  assume "lastEvent this = Ev a \<and> es a = Some cause"
  with assms show "lastPromiseError es (set_lastPromiseError v this) = lastPromiseError es cause"
    by (subst lastPromiseError.simps) (simp add: set_lastPromiseError_def)
next
  assume "\<not> truthy (lastEvent this)"
  with assms show "lastPromiseError es (set_lastPromiseError v this) = Some Undefined"
    by (subst lastPromiseError.simps) (simp add: set_lastPromiseError_def)
next
  show "lastPromiseError es (set_lastPromiseError v this) \<noteq> Some v"
    using lastPromiseError_range [of es "set_lastPromiseError v this" v] assms by blast
qed

theorem lastPromise_falsy_is_unset_witness:
  "\<not> truthy (Bool False) \<and> Bool False \<noteq> Undefined \<and>
   lastEvent (ex_event\<lparr>lastEvent := Ev 5\<rparr>) = Ev 5 \<and> [5 \<mapsto> ex_cause] 5 = Some ex_cause \<and>
   lastPromiseResult [5 \<mapsto> ex_cause] (set_lastPromiseResult (Bool False) (ex_event\<lparr>lastEvent := Ev 5\<rparr>)) = Some (Str ''ok'') \<and>
   lastPromiseError [5 \<mapsto> ex_cause] (set_lastPromiseError (Bool False) (ex_event\<lparr>lastEvent := Ev 5\<rparr>)) = Some (Str ''bad'') \<and>
   \<not> truthy (lastEvent ex_event) \<and>
   lastPromiseResult [5 \<mapsto> ex_cause] (set_lastPromiseResult (Bool False) ex_event) = Some Undefined \<and>
   lastPromiseError [5 \<mapsto> ex_cause] (set_lastPromiseError (Bool False) ex_event) = Some Undefined"
proof -
  have c: "lastPromiseResult [5 \<mapsto> ex_cause] ex_cause = Some (Str ''ok'')"
          "lastPromiseError [5 \<mapsto> ex_cause] ex_cause = Some (Str ''bad'')"
    by (simp_all add: lastPromiseResult.simps lastPromiseError.simps ex_cause_def ex_event_def RingaEvent_fields_def)
  have f: "\<not> truthy (Bool False)" "Bool False \<noteq> Undefined" by simp_all
  show ?thesis
    using lastPromise_falsy_is_unset [OF f, of "ex_event\<lparr>lastEvent := Ev 5\<rparr>" 5 "[5 \<mapsto> ex_cause]" ex_cause]
          lastPromise_falsy_is_unset [OF f, of ex_event 5 "[5 \<mapsto> ex_cause]" ex_cause] c
    by (simp add: ex_event_def RingaEvent_fields_def)
qed

section \<open>Properties of the listener registry\<close>


lemma indexOf_None: "indexOf xs x = None \<longleftrightarrow> x \<notin> set xs"
  by (induction xs) auto

lemma addListener_new:
  assumes "events w this = Some ev" "eventType \<notin> set Object_prototype_names"
    "h \<notin> set (registered ev eventType)"
  shows "addListener eventType h this w =
     (Inr this,
      w\<lparr>events := (events w)(this \<mapsto> ev\<lparr>listeners := (listeners ev)(eventType \<mapsto> registered ev eventType @ [h])\<rparr>),
        out := out w @ map (Listener_call h) (filter (\<lambda>d. n_type d = eventType) (dispatchedEvents ev))\<rparr>)"
  using assms
  by (auto simp: addListener_def with_event_def update_event_def andThen_def throw_def
      registered_def indexOf_None split: option.splits)

lemma addListener_dup:
  assumes "events w this = Some ev" "eventType \<notin> set Object_prototype_names"
    "h \<in> set (registered ev eventType)"
  shows "addListener eventType h this w =
     (Inl Error_same_listener_twice,
      w\<lparr>events := (events w)(this \<mapsto> ev\<lparr>listeners := (listeners ev)(eventType \<mapsto> registered ev eventType)\<rparr>)\<rparr>)"
  using assms
  by (auto simp: addListener_def with_event_def update_event_def andThen_def throw_def
      registered_def indexOf_None split: option.splits)

lemma u_dispatchEvent_eq:
  assumes "events w this = Some ev" "type \<notin> set Object_prototype_names"
  shows "u_dispatchEvent type d e k this w =
     (Inr (),
      w\<lparr>events := (events w)(this \<mapsto> ev\<lparr>dispatchedEvents := dispatchedEvents ev @
            [\<lparr>n_type = type, n_detail = d, n_error = e, n_kill = None\<rparr>]\<rparr>),
        out := out w @ map (\<lambda>l. Listener_call l \<lparr>n_type = type, n_detail = d, n_error = e, n_kill = Some k\<rparr>)
                 (registered ev type)\<rparr>)"
  using assms
  by (auto simp: u_dispatchEvent_def with_event_def update_event_def andThen_def throw_def return_def
      registered_def split: option.splits)

text \<open>
  Claim C8. For a notification type (any string that does not name a member of
  \<open>Object.prototype\<close>; \<open>done\<close>, \<open>fail\<close> and \<open>prehook\<close> are such), adding the
  same handler a second time throws; adding first one and then another new handler
  succeeds and registers both in order; and a handler added after a notification of
  the type was emitted is called at once with the stored notification (after the
  replay of the earlier ones), which is the emitted object without its \<open>kill\<close>
  property.
\<close>

theorem addListener_same_handler_twice:
  assumes ev: "events w this = Some ev" and ty: "eventType \<notin> set Object_prototype_names"
  shows "fst (andThen (addListener eventType h this) (\<lambda>_. addListener eventType h this) w)
           = Inl Error_same_listener_twice \<and>
         (h \<notin> set (registered ev eventType) \<and> h' \<notin> set (registered ev eventType) \<and> h' \<noteq> h \<longrightarrow>
            (\<exists>w' ev'. andThen (addListener eventType h this) (\<lambda>_. addListener eventType h' this) w
                        = (Inr this, w') \<and>
                     events w' this = Some ev' \<and>
                     registered ev' eventType = registered ev eventType @ [h, h'])) \<and>
         (h' \<notin> set (registered ev eventType) \<longrightarrow>
            (\<exists>w'. andThen (u_dispatchEvent eventType d e k this) (\<lambda>_. addListener eventType h' this) w
                     = (Inr this, w') \<and>
                  out w' = out w
                    @ map (\<lambda>l. Listener_call l \<lparr>n_type = eventType, n_detail = d, n_error = e, n_kill = Some k\<rparr>)
                        (registered ev eventType)
                    @ map (Listener_call h') (filter (\<lambda>n. n_type n = eventType) (dispatchedEvents ev))
                    @ [Listener_call h' \<lparr>n_type = eventType, n_detail = d, n_error = e, n_kill = None\<rparr>]))"
proof (intro conjI impI)
  show "fst (andThen (addListener eventType h this) (\<lambda>_. addListener eventType h this) w)
           = Inl Error_same_listener_twice"
  proof (cases "h \<in> set (registered ev eventType)")
    case True
    then show ?thesis
      by (simp add: andThen_def addListener_dup [OF ev ty])
  next
    case False
    let ?ev1 = "ev\<lparr>listeners := (listeners ev)(eventType \<mapsto> registered ev eventType @ [h])\<rparr>"
    let ?w1 = "w\<lparr>events := (events w)(this \<mapsto> ?ev1),
        out := out w @ map (Listener_call h) (filter (\<lambda>d. n_type d = eventType) (dispatchedEvents ev))\<rparr>"
    have 1: "addListener eventType h this w = (Inr this, ?w1)"
      by (rule addListener_new [OF ev ty False])
    have "events ?w1 this = Some ?ev1" by simp
    moreover have "h \<in> set (registered ?ev1 eventType)" by (simp add: registered_def)
    ultimately have "fst (addListener eventType h this ?w1) = Inl Error_same_listener_twice"
      using addListener_dup [of ?w1 this ?ev1 eventType h] ty by simp
    then show ?thesis by (simp add: andThen_def 1)
  qed
next
  assume a: "h \<notin> set (registered ev eventType) \<and> h' \<notin> set (registered ev eventType) \<and> h' \<noteq> h"
  let ?ev1 = "ev\<lparr>listeners := (listeners ev)(eventType \<mapsto> registered ev eventType @ [h])\<rparr>"
  let ?w1 = "w\<lparr>events := (events w)(this \<mapsto> ?ev1),
      out := out w @ map (Listener_call h) (filter (\<lambda>d. n_type d = eventType) (dispatchedEvents ev))\<rparr>"
  have 1: "addListener eventType h this w = (Inr this, ?w1)"
    using a by (intro addListener_new [OF ev ty]) simp
  have e1: "events ?w1 this = Some ?ev1" by simp
  have r1: "registered ?ev1 eventType = registered ev eventType @ [h]" by (simp add: registered_def)
  have n1: "h' \<notin> set (registered ?ev1 eventType)" using a by (simp add: r1)
  show "\<exists>w' ev'. andThen (addListener eventType h this) (\<lambda>_. addListener eventType h' this) w
                        = (Inr this, w') \<and>
                     events w' this = Some ev' \<and>
                     registered ev' eventType = registered ev eventType @ [h, h']"
    by (simp add: andThen_def 1 addListener_new [OF e1 ty n1] r1) (simp add: registered_def)
next
  assume a: "h' \<notin> set (registered ev eventType)"
  let ?n = "\<lparr>n_type = eventType, n_detail = d, n_error = e, n_kill = None\<rparr>"
  let ?ev1 = "ev\<lparr>dispatchedEvents := dispatchedEvents ev @ [?n]\<rparr>"
  let ?w1 = "w\<lparr>events := (events w)(this \<mapsto> ?ev1),
        out := out w @ map (\<lambda>l. Listener_call l \<lparr>n_type = eventType, n_detail = d, n_error = e, n_kill = Some k\<rparr>)
                 (registered ev eventType)\<rparr>"
  have 1: "u_dispatchEvent eventType d e k this w = (Inr (), ?w1)"
    by (rule u_dispatchEvent_eq [OF ev ty])
  have e1: "events ?w1 this = Some ?ev1" by simp
  have n1: "h' \<notin> set (registered ?ev1 eventType)" using a by (simp add: registered_def)
  show "\<exists>w'. andThen (u_dispatchEvent eventType d e k this) (\<lambda>_. addListener eventType h' this) w
                     = (Inr this, w') \<and>
                  out w' = out w
                    @ map (\<lambda>l. Listener_call l \<lparr>n_type = eventType, n_detail = d, n_error = e, n_kill = Some k\<rparr>)
                        (registered ev eventType)
                    @ map (Listener_call h') (filter (\<lambda>n. n_type n = eventType) (dispatchedEvents ev))
                    @ [Listener_call h' ?n]"
    by (simp add: andThen_def 1 addListener_new [OF e1 ty n1])
qed

theorem addListener_same_handler_twice_witness:
  "events ex_world 1 = Some ex_event \<and> RingaEvent_DONE \<notin> set Object_prototype_names \<and>
   fst (andThen (addListener RingaEvent_DONE 7 1) (\<lambda>_. addListener RingaEvent_DONE 7 1) ex_world)
           = Inl Error_same_listener_twice \<and>
   7 \<notin> set (registered ex_event RingaEvent_DONE) \<and> 8 \<notin> set (registered ex_event RingaEvent_DONE) \<and> (8::nat) \<noteq> 7 \<and>
   fst (andThen (addListener RingaEvent_DONE 7 1) (\<lambda>_. addListener RingaEvent_DONE 8 1) ex_world) = Inr 1 \<and>
   out (snd (andThen (u_dispatchEvent RingaEvent_DONE Undefined Undefined Undefined 1)
               (\<lambda>_. addListener RingaEvent_DONE 8 1) ex_world))
     = [Listener_call 8 \<lparr>n_type = RingaEvent_DONE, n_detail = Undefined, n_error = Undefined, n_kill = None\<rparr>]"
proof -
  have ev: "events ex_world 1 = Some ex_event" by (simp add: ex_world_def)
  have ty: "RingaEvent_DONE \<notin> set Object_prototype_names"
    by (simp add: RingaEvent_DONE_def Object_prototype_names_def)
  have r: "registered ex_event RingaEvent_DONE = []"
    by (simp add: registered_def ex_event_def RingaEvent_fields_def)
  have d: "dispatchedEvents ex_event = []" "out ex_world = []"
    by (simp_all add: ex_event_def RingaEvent_fields_def ex_world_def)
  show ?thesis
    using addListener_same_handler_twice [OF ev ty, of 7 8 Undefined Undefined Undefined] ev ty
    by (auto simp: r d)
qed

section \<open>Properties of completion\<close>

lemmas call_defs = andThen_def return_def throw_def with_event_def update_event_def

lemma addDebug_events: "addDebug m l this w = (r, w') \<Longrightarrow> events w' = events w"
  by (auto simp: addDebug_def call_defs emit_def set_prop_def Let_def split: option.splits if_splits val.splits)

lemma u_uncatch_events:
  assumes "u_uncatch DEV c this w = (r, w')" "events w this = Some ev"
  shows "events w' this = Some ev \<or>
         events w' this = Some (ev\<lparr>catchers := snd (splice1 (indexOf (catchers ev) c) (catchers ev)),
            u_catchers := u_catchers ev @ [first_or_undefined (fst (splice1 (indexOf (catchers ev) c) (catchers ev)))]\<rparr>)"
proof -
  obtain r1 w1 where 1: "addDebug (Text ''Uncaught by '' [c]) 0 this
     (w\<lparr>events := (events w)(this \<mapsto> (ev\<lparr>catchers := snd (splice1 (indexOf (catchers ev) c) (catchers ev)),
            u_catchers := u_catchers ev @ [first_or_undefined (fst (splice1 (indexOf (catchers ev) c) (catchers ev)))]\<rparr>))\<rparr>) = (r1, w1)"
    by fastforce
  from addDebug_events [OF 1] assms 1 show ?thesis
    by (auto simp: u_uncatch_def call_defs Let_def split_beta split: if_splits)
qed

lemma u_dispatchEvent_events:
  assumes "u_dispatchEvent ty d e k this w = (r, w')" "events w this = Some ev"
  shows "events w' this = Some (ev\<lparr>dispatchedEvents := dispatchedEvents ev @
            [\<lparr>n_type = ty, n_detail = d, n_error = e, n_kill = None\<rparr>]\<rparr>)"
  using assms
  by (auto simp: u_dispatchEvent_def call_defs split: option.splits if_splits)

lemma u_done_emits_only_when_all_done:
  assumes "u_done DEV c this w = (r, w')" and "events w this = Some ev" and "events w' this = Some ev'"
  shows "dispatchedEvents ev' = dispatchedEvents ev \<or>
         (catchers ev' = [] \<and> u_errors ev \<in> {None, Some []} \<and>
          dispatchedEvents ev' = dispatchedEvents ev @
            [\<lparr>n_type = RingaEvent_DONE, n_detail = Undefined, n_error = Undefined, n_kill = None\<rparr>])"
proof (cases "DEV \<and> \<not> truthy c")
  case True
  with assms show ?thesis by (simp add: u_done_def throw_def)
next
  case False
  obtain r1 w1 where 1: "u_uncatch DEV c this w = (r1, w1)" by fastforce
  obtain r2 w2 where 2: "addDebug (Str ''Done'') 0 this w1 = (r2, w2)" by fastforce
  from u_uncatch_events [OF 1 assms(2)] obtain ev1 where
    e1: "events w1 this = Some ev1" "dispatchedEvents ev1 = dispatchedEvents ev" "u_errors ev1 = u_errors ev"
    by auto
  from addDebug_events [OF 2] e1 have e2: "events w2 this = Some ev1" by simp
  show ?thesis
  proof (cases r1)
    case (Inl x)
    with assms False 1 e1 show ?thesis by (auto simp: u_done_def andThen_def)
  next
    case r1: (Inr u)
    show ?thesis
    proof (cases r2)
      case (Inl x)
      with assms False 1 2 r1 e2 e1 show ?thesis by (auto simp: u_done_def andThen_def)
    next
      case r2: (Inr u2)
      have 3: "u_done DEV c this w = with_event this (\<lambda>ev.
          if length (catchers ev) = 0 then
            (if (case u_errors ev of Some errs \<Rightarrow> length errs \<noteq> 0 | None \<Rightarrow> False)
             then throw (ReferenceError ''error'')
             else u_dispatchEvent RingaEvent_DONE Undefined Undefined Undefined this)
          else return ()) w2"
        using False 1 2 r1 r2 by (auto simp: u_done_def andThen_def)
      show ?thesis
      proof (cases "catchers ev1 = [] \<and> \<not> (case u_errors ev1 of Some errs \<Rightarrow> length errs \<noteq> 0 | None \<Rightarrow> False)")
        case True
        then have "u_dispatchEvent RingaEvent_DONE Undefined Undefined Undefined this w2 = (r, w')"
          using 3 assms(1) e2 by (simp add: with_event_def)
        from u_dispatchEvent_events [OF this e2] assms(3) True e1 show ?thesis
          by (auto split: option.splits)
      next
        case False
        then have "w' = w2" using 3 assms(1) e2
          by (auto simp: with_event_def throw_def return_def split: if_splits)
        with e2 e1 assms(3) show ?thesis by simp
      qed
    qed
  qed
qed

lemmas event_defs = addListener_def u_caught_def u_uncatch_def pushError_def u_done_def u_fail_def
  u_dispatchEvent_def addDebug_def debug_def get_prop_def bag_of_def set_prop_def emit_def
  splice1_def first_or_undefined_def RingaEvent_DONE_def RingaEvent_FAIL_def Object_prototype_names_def

lemmas example_defs = ex_world_def ex_event_def RingaEvent_fields_def

text \<open>Two controllers and no error: the first \<open>_done\<close> emits nothing, the second emits
  \<open>done\<close> to the listener.\<close>

lemma two_controllers_done_example:
  "andThen two_catchers (\<lambda>_. u_done True (Ref 10) 1) ex_world = (r1, w1) \<Longrightarrow>
   andThen two_catchers (\<lambda>_. andThen (u_done True (Ref 10) 1) (\<lambda>_. u_done True (Ref 11) 1)) ex_world
     = (r2, w2) \<Longrightarrow>
   r1 = Inr () \<and> out w1 = [] \<and> r2 = Inr () \<and>
   out w2 = [Listener_call 7 \<lparr>n_type = ''done'', n_detail = Undefined, n_error = Undefined,
                              n_kill = Some Undefined\<rparr>]"
  by (auto simp: two_catchers_def call_defs event_defs example_defs)

text \<open>\<open>_fail\<close> emits \<open>fail\<close> at once and records no error, so the handle emits
  \<open>done\<close> after it when both controllers have reported done.\<close>

lemma fail_without_record_example:
  "andThen two_catchers (\<lambda>_.
   andThen (u_fail True (Ref 10) (Str ''boom'') (Bool False) 1) (\<lambda>_.
   andThen (u_done True (Ref 10) 1) (\<lambda>_. u_done True (Ref 11) 1))) ex_world = (r, w') \<Longrightarrow>
   r = Inr () \<and>
   out w' = [Listener_call 8 \<lparr>n_type = ''fail'', n_detail = Undefined, n_error = Str ''boom'',
                              n_kill = Some (Bool False)\<rparr>,
             Listener_call 7 \<lparr>n_type = ''done'', n_detail = Undefined, n_error = Undefined,
                              n_kill = Some Undefined\<rparr>]"
  by (auto simp: two_catchers_def call_defs event_defs example_defs)

text \<open>
  Claim C1, at the failing input. With an error recorded on the handle, the \<open>_done\<close> of
  the last controller throws a ReferenceError: no \<open>fail\<close> and no \<open>done\<close>
  notification is stored or delivered, although both controllers have left the in-flight
  list.
\<close>

theorem u_done_recorded_error_throws:
  "\<exists>w' ev'. recorded_error_then_done ex_world = (Inl (ReferenceError ''error''), w') \<and>
     out w' = [] \<and> events w' 1 = Some ev' \<and> dispatchedEvents ev' = [] \<and>
     catchers ev' = [] \<and> u_catchers ev' = [Ref 10, Ref 11] \<and> u_errors ev' = Some [Str ''boom'']"
  by (simp add: recorded_error_then_done_def two_catchers_def call_defs event_defs example_defs)

section \<open>Properties of the constructor and of argument resolution\<close>













text \<open>The entry stays: the methods of the handle and the steps of the thread write
  \<open>$debug\<close> and delete \<open>_promise\<close>, and touch no other property of a value bag.\<close>

lemma addDebug_keeps_ringaEvent:
  "addDebug m l a w = (r, w') \<Longrightarrow> bag_of w' d ''ringaEvent'' = bag_of w d ''ringaEvent''"
  by (auto simp: addDebug_def with_event_def emit_def set_prop_def bag_of_def Let_def
      split: option.splits if_splits val.splits)

lemma update_event_bags: "update_event a f w = (r, w') \<Longrightarrow> bags w' = bags w"
  by (auto simp: update_event_def split: option.splits)

lemma bag_of_cong: "bags w' = bags w \<Longrightarrow> bag_of w' = bag_of w"
  by (auto simp: bag_of_def fun_eq_iff)

lemma u_caught_keeps_ringaEvent:
  assumes "u_caught DEV c a w = (r, w')"
  shows "bag_of w' d ''ringaEvent'' = bag_of w d ''ringaEvent''"
proof (cases "DEV \<and> \<not> truthy c")
  case True
  with assms show ?thesis by (simp add: u_caught_def throw_def)
next
  case False
  obtain r1 w1 where 1: "update_event a (\<lambda>ev. ev\<lparr>uu_caught := True, catchers := catchers ev @ [c]\<rparr>) w = (r1, w1)"
    by fastforce
  obtain r2 w2 where 2: "addDebug (Text ''Caught by '' [c]) 0 a w1 = (r2, w2)" by fastforce
  from assms False 1 2 have "w' = w1 \<or> w' = w2"
    by (auto simp: u_caught_def andThen_def split: sum.splits)
  with addDebug_keeps_ringaEvent [OF 2] bag_of_cong [OF update_event_bags [OF 1]] show ?thesis
    by auto
qed

lemma u_uncatch_keeps_ringaEvent:
  assumes "u_uncatch DEV c a w = (r, w')"
  shows "bag_of w' d ''ringaEvent'' = bag_of w d ''ringaEvent''"
proof (cases "events w a")
  case None
  with assms show ?thesis by (simp add: u_uncatch_def with_event_def)
next
  case (Some ev)
  let ?f = "\<lambda>ev'. let (removed, rest) = splice1 (indexOf (catchers ev) c) (catchers ev')
          in ev'\<lparr>catchers := rest, u_catchers := u_catchers ev' @ [first_or_undefined removed]\<rparr>"
  obtain r1 w1 where 1: "update_event a ?f w = (r1, w1)" by fastforce
  obtain r2 w2 where 2: "addDebug (Text ''Uncaught by '' [c]) 0 a w1 = (r2, w2)" by fastforce
  from assms Some 1 2 have "w' = w \<or> w' = w1 \<or> w' = w2"
    by (auto simp: u_uncatch_def with_event_def andThen_def throw_def Let_def split: sum.splits if_splits)
  with addDebug_keeps_ringaEvent [OF 2] bag_of_cong [OF update_event_bags [OF 1]] show ?thesis
    by auto
qed

lemma u_dispatchEvent_keeps_ringaEvent:
  assumes "u_dispatchEvent ty dt e k a w = (r, w')"
  shows "bag_of w' d ''ringaEvent'' = bag_of w d ''ringaEvent''"
  using assms
  by (auto simp: u_dispatchEvent_def with_event_def update_event_def andThen_def throw_def return_def
      bag_of_def split: option.splits if_splits)

lemma pushError_keeps_ringaEvent:
  assumes "pushError e a w = (r, w')"
  shows "bag_of w' d ''ringaEvent'' = bag_of w d ''ringaEvent''"
  using assms bag_of_cong [OF update_event_bags] by (auto simp: pushError_def)

lemma addListener_keeps_ringaEvent:
  assumes "addListener ty h a w = (r, w')"
  shows "bag_of w' d ''ringaEvent'' = bag_of w d ''ringaEvent''"
  using assms
  by (auto simp: addListener_def with_event_def update_event_def andThen_def throw_def
      bag_of_def split: option.splits if_splits)

lemma u_fail_keeps_ringaEvent:
  assumes "u_fail DEV c e k a w = (r, w')"
  shows "bag_of w' d ''ringaEvent'' = bag_of w d ''ringaEvent''"
proof -
  obtain r1 w1 where 1: "(if truthy k then u_uncatch DEV c a else return ()) w = (r1, w1)" by fastforce
  then have b1: "bag_of w1 d ''ringaEvent'' = bag_of w d ''ringaEvent''"
    using u_uncatch_keeps_ringaEvent by (auto simp: return_def split: if_splits)
  obtain r2 w2 where 2: "addDebug (Str ''Fail'') 0 a w1 = (r2, w2)" by fastforce
  obtain r3 w3 where 3: "u_dispatchEvent RingaEvent_FAIL Undefined e k a w2 = (r3, w3)" by fastforce
  from assms 1 2 3 have "w' = w1 \<or> w' = w2 \<or> w' = w3"
    by (auto simp: u_fail_def andThen_def split: sum.splits)
  with b1 addDebug_keeps_ringaEvent [OF 2] u_dispatchEvent_keeps_ringaEvent [OF 3] show ?thesis
    by auto
qed

lemma u_done_keeps_ringaEvent:
  assumes "u_done DEV c a w = (r, w')"
  shows "bag_of w' d ''ringaEvent'' = bag_of w d ''ringaEvent''"
proof (cases "DEV \<and> \<not> truthy c")
  case True
  with assms show ?thesis by (simp add: u_done_def throw_def)
next
  case False
  obtain r1 w1 where 1: "u_uncatch DEV c a w = (r1, w1)" by fastforce
  obtain r2 w2 where 2: "addDebug (Str ''Done'') 0 a w1 = (r2, w2)" by fastforce
  obtain r3 w3 where 3: "u_dispatchEvent RingaEvent_DONE Undefined Undefined Undefined a w2 = (r3, w3)"
    by fastforce
  from assms False 1 2 3 have "w' = w1 \<or> w' = w2 \<or> w' = w3"
    by (auto simp: u_done_def andThen_def with_event_def throw_def return_def
        split: sum.splits option.splits if_splits)
  with u_uncatch_keeps_ringaEvent [OF 1] addDebug_keeps_ringaEvent [OF 2]
    u_dispatchEvent_keeps_ringaEvent [OF 3] show ?thesis
    by auto
qed

lemma delete_detail_promise_keeps_ringaEvent:
  assumes "delete_detail_promise (this, w) = (r, (this', w'))"
  shows "bag_of w' d ''ringaEvent'' = bag_of w d ''ringaEvent''"
  using assms
  by (auto simp: delete_detail_promise_def delete_prop_def bag_of_def
      split: option.splits if_splits val.splits)

section \<open>Properties of the factory\<close>

text \<open>What \<open>build\<close> returns for each shape that passes the \<open>then\<close> test, and the
  reuse of the cached names by the builds after the first.\<close>

lemma build_by_shape:
  fixes obj :: js_object and f :: CommandFactory
  shows
  "executee f = E_string s \<Longrightarrow>
     build g t f = (Inr (CommandEventWrapper t (New_RingEventFactory s)), f)"
  "executee f = E_object obj \<Longrightarrow> then_is_function obj \<Longrightarrow>
     build g t f = (Inr (CommandPromiseWrapper t (E_object obj)), f)"
  "executee f = E_object obj \<Longrightarrow> \<not> then_is_function obj \<Longrightarrow> callable obj \<Longrightarrow>
     prototype_instanceof_CommandAbstract obj \<Longrightarrow> argNames f = None \<Longrightarrow>
     build g t f = (Inr (Command_instance (E_object obj) t None (Some (g (E_object obj)))),
                    f\<lparr>argNames := Some (g (E_object obj))\<rparr>)"
  "executee f = E_object obj \<Longrightarrow> \<not> then_is_function obj \<Longrightarrow> callable obj \<Longrightarrow>
     prototype_instanceof_CommandAbstract obj \<Longrightarrow> argNames f = Some names \<Longrightarrow>
     build g t f = (Inr (Command_instance (E_object obj) t (Some names) None), f)"
  "executee f = E_object obj \<Longrightarrow> \<not> then_is_function obj \<Longrightarrow> callable obj \<Longrightarrow>
     \<not> prototype_instanceof_CommandAbstract obj \<Longrightarrow>
     build g t f = (Inr (CommandFunctionWrapper t (E_object obj)), f)"
  "executee f = E_object obj \<Longrightarrow> \<not> then_is_function obj \<Longrightarrow> \<not> callable obj \<Longrightarrow>
     instanceof_Array obj \<Longrightarrow>
     build g t f = (Inr (CommandsParallelWrapper t (E_object obj)), f)"
  "executee f = E_object obj \<Longrightarrow> \<not> then_is_function obj \<Longrightarrow> \<not> callable obj \<Longrightarrow>
     \<not> instanceof_Array obj \<Longrightarrow> instanceof_RingEventFactory obj \<Longrightarrow>
     build g t f = (Inr (CommandEventWrapper t (The_executee (E_object obj))), f)"
  "executee f = E_object obj \<Longrightarrow> \<not> then_is_function obj \<Longrightarrow> \<not> callable obj \<Longrightarrow>
     \<not> instanceof_Array obj \<Longrightarrow> \<not> instanceof_RingEventFactory obj \<Longrightarrow>
     build g t f = (Inl (Error_executee_not_supported ''object''), f)"
  "executee f = E_boolean b \<Longrightarrow> build g t f = (Inl (Error_executee_not_supported ''boolean''), f)"
  "executee f = E_number n \<Longrightarrow> build g t f = (Inl (Error_executee_not_supported ''number''), f)"
  by (simp_all add: build_def cacheArguments_def)

lemma build_reuses_cached_names:
  assumes "executee f = E_object obj" "\<not> then_is_function obj" "callable obj"
    "prototype_instanceof_CommandAbstract obj" "argNames f = None"
    "build g t f = (r, f')"
  shows "build g' t' f' = (Inr (Command_instance (E_object obj) t' (Some (g (E_object obj))) None), f')"
  using assms by (auto simp: build_def cacheArguments_def)

text \<open>
  Claim C3, at the failing input. For an executee that is \<open>undefined\<close> or \<open>null\<close>,
  \<open>build\<close> throws the TypeError of the property access \<open>this.executee.then\<close>, not
  the error that names the type of the executee.
\<close>

theorem build_nullish_executee:
  "build g t (CommandFactory_new E_undefined) = (Inl TypeError, CommandFactory_new E_undefined) \<and>
   build g t (CommandFactory_new E_null) = (Inl TypeError, CommandFactory_new E_null) \<and>
   TypeError \<noteq> Error_executee_not_supported (typeof E_undefined) \<and>
   TypeError \<noteq> Error_executee_not_supported (typeof E_null)"
  by (simp add: build_def CommandFactory_new_def)

section \<open>Properties of the thread\<close>

text \<open>What each part of the handlers does to the thread, the handles and the effects.\<close>

lemma addDebug_step:
  assumes "addDebug m l a w = (r, w')"
  shows "events w' = events w \<and> (out w' = out w \<or> out w' = out w @ [Console_log m])"
  using assms
  by (auto simp: addDebug_def with_event_def emit_def set_prop_def Let_def
      split: option.splits if_splits val.splits)

lemma ringaEvent_addDebug_step:
  assumes "ringaEvent_addDebug m (this, w) = (r, (this', w'))"
  shows "this' = this \<and> events w' = events w \<and> (out w' = out w \<or> out w' = out w @ [Console_log m])"
proof (cases "ringaEvent this")
  case (Ev a)
  obtain r1 w1 where a: "addDebug m 0 a w = (r1, w1)" by fastforce
  with assms Ev have "this' = this" "w' = w1" by (auto simp: ringaEvent_addDebug_def)
  with addDebug_step [OF a] show ?thesis by simp
qed (use assms in \<open>auto simp: ringaEvent_addDebug_def\<close>)

lemma destroy_current_step:
  assumes "destroy_current e (this, w) = (r, (this', w'))"
  shows "this' = this \<and> events w' = events w \<and> r = Inr (all_at this (index this)) \<and>
         (\<exists>es. out w' = out w @ es \<and> (\<forall>x\<in>set es. \<not> starts_executor x))"
  using assms
  by (auto simp: destroy_current_def u_finCouldNotFindError_def andThen_def return_def emit_def
      split: option.splits if_splits)

lemma delete_detail_promise_step:
  assumes "delete_detail_promise (this, w) = (r, (this', w'))"
  shows "this' = this \<and> events w' = events w \<and> out w' = out w"
  using assms
  by (auto simp: delete_detail_promise_def delete_prop_def split: option.splits if_splits val.splits)

lemma call_failHandler_step:
  assumes "call_failHandler e k (this, w) = (r, (this', w'))"
  shows "this' = this \<and> events w' = events w \<and>
         (r = Inr () \<and> out w' = out w @ [FailHandler_call (failHandler this) (Ref (thread_ref this)) e k]
          \<or> r = Inl TypeError \<and> w' = w)"
  using assms by (auto simp: call_failHandler_def emit_def split: val.splits)

lemma call_doneHandler_step:
  assumes "call_doneHandler (this, w) = (r, (this', w'))"
  shows "this' = this \<and> events w' = events w \<and>
         (r = Inr () \<and> out w' = out w @ [DoneHandler_call (doneHandler this) (Ref (thread_ref this))]
          \<or> r = Inl TypeError \<and> w' = w)"
  using assms by (auto simp: call_doneHandler_def emit_def split: val.splits)

lemma removeExecutor_step:
  assumes "removeExecutor DEV x (this, w) = (r, (this', w'))"
  shows "r = Inr () \<and> index this' = index this \<and> error this' = error this \<and> events w' = events w \<and>
         (\<exists>es. out w' = out w @ es \<and> (\<forall>x\<in>set es. \<not> starts_executor x))"
  using assms
  by (auto simp: removeExecutor_def emit_def Let_def remove_item_def has_item_def split: option.splits if_splits)











lemma andThen_InrD:
  assumes "andThen f g s = (Inr y, s')"
  obtains x s1 where "f s = (Inr x, s1)" "g x s1 = (Inr y, s')"
  using assms by (auto simp: andThen_def split: prod.splits sum.splits)

lemma andThen_Inr: "f s = (Inr x, s1) \<Longrightarrow> andThen f g s = g x s1"
  by (simp add: andThen_def)

lemma fail_handler_report:
  assumes r: "u_executorFailHandler DEV e k (this, w) = (Inr (), s')"
  shows "\<exists>w1 es. u_executorFailHandler DEV e k (this, w) =
             (if \<not> truthy k then u_executorDoneHandler DEV
              else removeExecutor DEV (all_at this (index this))) (this\<lparr>error := e\<rparr>, w1) \<and>
           out w1 = out w @ es @ [FailHandler_call (failHandler this) (Ref (thread_ref this)) e k] \<and>
           (\<forall>x\<in>set es. \<not> starts_executor x) \<and> events w1 = events w"
proof -
  from r obtain x s1 where 1: "destroy_current e (this, w) = (Inr x, s1)"
    and r1: "andThen (ringaEvent_addDebug (Text ''Fail: '' [executor_val x])) (\<lambda>_.
     andThen (\<lambda>(this, w). (Inr (), (this\<lparr>error := e\<rparr>, w))) (\<lambda>_.
     andThen (call_failHandler e k) (\<lambda>_.
     andThen delete_detail_promise (\<lambda>_.
     if \<not> truthy k then u_executorDoneHandler DEV
     else removeExecutor DEV x)))) s1 = (Inr (), s')"
    unfolding u_executorFailHandler_def by (rule andThen_InrD)
  obtain w1 where s1: "s1 = (this, w1)" and e1: "events w1 = events w" and x: "x = all_at this (index this)"
    and o1: "\<exists>es. out w1 = out w @ es \<and> (\<forall>x\<in>set es. \<not> starts_executor x)"
    using destroy_current_step [of e this w "Inr x" "fst s1" "snd s1"] 1 by (cases s1) auto
  from r1 obtain u2 s2 where 2: "ringaEvent_addDebug (Text ''Fail: '' [executor_val x]) s1 = (Inr u2, s2)"
    and r2: "andThen (\<lambda>(this, w). (Inr (), (this\<lparr>error := e\<rparr>, w))) (\<lambda>_.
     andThen (call_failHandler e k) (\<lambda>_.
     andThen delete_detail_promise (\<lambda>_.
     if \<not> truthy k then u_executorDoneHandler DEV
     else removeExecutor DEV x))) s2 = (Inr (), s')"
    by (rule andThen_InrD)
  obtain w2 where s2: "s2 = (this, w2)" and e2: "events w2 = events w1"
    and o2: "out w2 = out w1 \<or> out w2 = out w1 @ [Console_log (Text ''Fail: '' [executor_val x])]"
    using ringaEvent_addDebug_step [of _ this w1 "Inr u2" "fst s2" "snd s2"] 2 s1 by (cases s2) auto
  from r2 s2 have r3: "andThen (call_failHandler e k) (\<lambda>_.
     andThen delete_detail_promise (\<lambda>_.
     if \<not> truthy k then u_executorDoneHandler DEV
     else removeExecutor DEV x)) (this\<lparr>error := e\<rparr>, w2) = (Inr (), s')"
    by (simp add: andThen_def)
  then obtain u4 s4 where 4: "call_failHandler e k (this\<lparr>error := e\<rparr>, w2) = (Inr u4, s4)"
    and r4: "andThen delete_detail_promise (\<lambda>_.
     if \<not> truthy k then u_executorDoneHandler DEV
     else removeExecutor DEV x) s4 = (Inr (), s')"
    by (rule andThen_InrD)
  obtain w4 where s4: "s4 = (this\<lparr>error := e\<rparr>, w4)" and e4: "events w4 = events w2"
    and o4: "out w4 = out w2 @ [FailHandler_call (failHandler this) (Ref (thread_ref this)) e k]"
    using call_failHandler_step [of e k "this\<lparr>error := e\<rparr>" w2 "Inr u4" "fst s4" "snd s4"] 4
    by (cases s4) auto
  from r4 obtain u5 s5 where 5: "delete_detail_promise s4 = (Inr u5, s5)"
    and r5: "(if \<not> truthy k then u_executorDoneHandler DEV else removeExecutor DEV x) s5 = (Inr (), s')"
    by (rule andThen_InrD)
  obtain w5 where s5: "s5 = (this\<lparr>error := e\<rparr>, w5)" and e5: "events w5 = events w4"
    and o5: "out w5 = out w4"
    using delete_detail_promise_step [of "this\<lparr>error := e\<rparr>" w4 "Inr u5" "fst s5" "snd s5"] 5 s4
    by (cases s5) auto
  have eq: "u_executorFailHandler DEV e k (this, w) =
      (if \<not> truthy k then u_executorDoneHandler DEV
       else removeExecutor DEV (all_at this (index this))) (this\<lparr>error := e\<rparr>, w5)"
    using 1 2 4 5 s1 s2 s4 s5 x
    by (simp add: u_executorFailHandler_def andThen_def)
  from o1 obtain es1 where a: "out w1 = out w @ es1" and q: "\<forall>x\<in>set es1. \<not> starts_executor x" by blast
  from o2 obtain es2 where b: "out w2 = out w1 @ es2" and q2: "\<forall>x\<in>set es2. \<not> starts_executor x"
    by (elim disjE) (auto intro: exI [of _ "[]"])
  have "out w5 = out w @ (es1 @ es2) @ [FailHandler_call (failHandler this) (Ref (thread_ref this)) e k]"
    using a b o4 o5 by simp
  moreover have "\<forall>x\<in>set (es1 @ es2). \<not> starts_executor x" using q q2 by auto
  moreover have "events w5 = events w" using e1 e2 e4 e5 by simp
  ultimately show ?thesis using eq by blast
qed


lemma done_handler_result:
  assumes r: "u_executorDoneHandler DEV (this, w) = (Inr (), (this', w'))"
  shows "index this' = map_option Suc (index this) \<and> error this' = error this \<and>
         (\<exists>es. (\<forall>x\<in>set es. \<not> starts_executor x) \<and>
            (if (case index this of Some i \<Rightarrow> Suc i < length (all this) | None \<Rightarrow> False)
             then all this' = all this \<and>
                  out w' = out w @ es @ [SetTimeout_executeNext (Ref (thread_ref this))]
             else out w' = out w @ es \<and>
                  DoneHandler_call (doneHandler this) (Ref (thread_ref this)) \<in> set es))"
proof -
  from r obtain x s1 where 1: "destroy_current Undefined (this, w) = (Inr x, s1)"
    and r1: "andThen (ringaEvent_addDebug (Text ''Done: '' [executor_val x])) (\<lambda>_.
     andThen (\<lambda>(this, w). (Inr (), (this\<lparr>index := map_option Suc (index this)\<rparr>, w))) (\<lambda>_.
     andThen delete_detail_promise (\<lambda>_.
     (\<lambda>(this, w).
        if (case index this of Some i \<Rightarrow> i < length (all this) | None \<Rightarrow> False)
        then (Inr (), (this, emit (SetTimeout_executeNext (Ref (thread_ref this))) w))
        else andThen call_doneHandler (\<lambda>_. removeExecutor DEV x) (this, w))))) s1 = (Inr (), (this', w'))"
    unfolding u_executorDoneHandler_def by (rule andThen_InrD)
  obtain w1 where s1: "s1 = (this, w1)"
    and o1: "\<exists>es. out w1 = out w @ es \<and> (\<forall>x\<in>set es. \<not> starts_executor x)"
    using destroy_current_step [of Undefined this w "Inr x" "fst s1" "snd s1"] 1 by (cases s1) auto
  from r1 obtain u2 s2 where 2: "ringaEvent_addDebug (Text ''Done: '' [executor_val x]) s1 = (Inr u2, s2)"
    and r2: "andThen (\<lambda>(this, w). (Inr (), (this\<lparr>index := map_option Suc (index this)\<rparr>, w))) (\<lambda>_.
     andThen delete_detail_promise (\<lambda>_.
     (\<lambda>(this, w).
        if (case index this of Some i \<Rightarrow> i < length (all this) | None \<Rightarrow> False)
        then (Inr (), (this, emit (SetTimeout_executeNext (Ref (thread_ref this))) w))
        else andThen call_doneHandler (\<lambda>_. removeExecutor DEV x) (this, w)))) s2 = (Inr (), (this', w'))"
    by (rule andThen_InrD)
  obtain w2 where s2: "s2 = (this, w2)"
    and o2: "out w2 = out w1 \<or> out w2 = out w1 @ [Console_log (Text ''Done: '' [executor_val x])]"
    using ringaEvent_addDebug_step [of _ this w1 "Inr u2" "fst s2" "snd s2"] 2 s1 by (cases s2) auto
  let ?t = "this\<lparr>index := map_option Suc (index this)\<rparr>"
  from r2 s2 have r3: "andThen delete_detail_promise (\<lambda>_.
     (\<lambda>(this, w).
        if (case index this of Some i \<Rightarrow> i < length (all this) | None \<Rightarrow> False)
        then (Inr (), (this, emit (SetTimeout_executeNext (Ref (thread_ref this))) w))
        else andThen call_doneHandler (\<lambda>_. removeExecutor DEV x) (this, w))) (?t, w2) = (Inr (), (this', w'))"
    by (simp add: andThen_def)
  then obtain u4 s4 where 4: "delete_detail_promise (?t, w2) = (Inr u4, s4)"
    and r4: "(\<lambda>(this, w).
        if (case index this of Some i \<Rightarrow> i < length (all this) | None \<Rightarrow> False)
        then (Inr (), (this, emit (SetTimeout_executeNext (Ref (thread_ref this))) w))
        else andThen call_doneHandler (\<lambda>_. removeExecutor DEV x) (this, w)) s4 = (Inr (), (this', w'))"
    by (rule andThen_InrD)
  obtain w4 where s4: "s4 = (?t, w4)" and o4: "out w4 = out w2"
    using delete_detail_promise_step [of ?t w2 "Inr u4" "fst s4" "snd s4"] 4 by (cases s4) auto
  from o1 obtain es1 where a: "out w1 = out w @ es1" and q: "\<forall>x\<in>set es1. \<not> starts_executor x" by blast
  from o2 obtain es2 where b: "out w2 = out w1 @ es2" and q2: "\<forall>x\<in>set es2. \<not> starts_executor x"
    by (elim disjE) (auto intro: exI [of _ "[]"])
  have o: "out w4 = out w @ (es1 @ es2)" and qq: "\<forall>x\<in>set (es1 @ es2). \<not> starts_executor x"
    using a b o4 q q2 by auto
  have c: "(case index ?t of Some i \<Rightarrow> i < length (all ?t) | None \<Rightarrow> False) =
           (case index this of Some i \<Rightarrow> Suc i < length (all this) | None \<Rightarrow> False)"
    by (cases "index this") simp_all
  show ?thesis
  proof (cases "case index this of Some i \<Rightarrow> Suc i < length (all this) | None \<Rightarrow> False")
    case True
    with r4 s4 c have "this' = ?t" "w' = emit (SetTimeout_executeNext (Ref (thread_ref this))) w4"
      by (simp_all split: if_splits)
    with True o qq show ?thesis
      by (intro conjI exI [of _ "es1 @ es2"]) (simp_all add: emit_def)
  next
    case False
    with r4 s4 c have r5: "andThen call_doneHandler (\<lambda>_. removeExecutor DEV x) (?t, w4) = (Inr (), (this', w'))"
      by (simp split: if_splits)
    then obtain u6 s6 where 6: "call_doneHandler (?t, w4) = (Inr u6, s6)"
      and r6: "removeExecutor DEV x s6 = (Inr (), (this', w'))"
      by (rule andThen_InrD)
    obtain w6 where s6: "s6 = (?t, w6)"
      and o6: "out w6 = out w4 @ [DoneHandler_call (doneHandler this) (Ref (thread_ref this))]"
      using call_doneHandler_step [of ?t w4 "Inr u6" "fst s6" "snd s6"] 6 by (cases s6) auto
    from removeExecutor_step [of DEV x ?t w6 "Inr ()" this' w'] r6 s6
    obtain es7 where i7: "index this' = index ?t" "error this' = error ?t" and o7: "out w' = out w6 @ es7"
      and q7: "\<forall>x\<in>set es7. \<not> starts_executor x" by auto
    let ?es = "es1 @ es2 @ [DoneHandler_call (doneHandler this) (Ref (thread_ref this))] @ es7"
    have "out w' = out w @ ?es" using o o6 o7 by simp
    moreover have "\<forall>x\<in>set ?es. \<not> starts_executor x" using qq q7 by auto
    moreover have "DoneHandler_call (doneHandler this) (Ref (thread_ref this)) \<in> set ?es" by simp
    ultimately show ?thesis using False i7 by (intro conjI exI [of _ ?es]) simp_all
  qed
qed


text \<open>With a handle whose debug output is off and whose value bag is a plain object, and
  with functions as callbacks, both handlers return.\<close>

lemma debug_frame:
  "debug (emit x w) ev = debug w ev"
  "debug (delete_prop d ''_promise'' w) ev = debug w ev"
  by (auto simp: debug_def emit_def delete_prop_def get_prop_def bag_of_def split: val.splits)

lemma events_frame:
  "events (emit x w) = events w"
  "events (delete_prop d k w) = events w"
  by (simp_all add: emit_def delete_prop_def)

lemma ringaEvent_addDebug_off:
  "ringaEvent this = Ev a \<Longrightarrow> events w a = Some ev \<Longrightarrow> debug w ev = Undefined \<Longrightarrow>
   ringaEvent_addDebug m (this, w) = (Inr (), (this, w))"
  by (simp add: ringaEvent_addDebug_def addDebug_def with_event_def)

lemma delete_detail_promise_object:
  "ringaEvent this = Ev a \<Longrightarrow> events w a = Some ev \<Longrightarrow> detail ev = Ref d \<Longrightarrow>
   delete_detail_promise (this, w) =
     (Inr (), (this, if truthy (get_prop w (Ref d) ''_promise'') then delete_prop d ''_promise'' w else w))"
  by (simp add: delete_detail_promise_def)

lemma destroy_current_eq:
  "destroy_current e (this, w) =
     (Inr (all_at this (index this)),
      (this, case all_at this (index this) of
               Some x \<Rightarrow> emit (Destroy (Ref (e_ref x))) w
             | None \<Rightarrow> if destroyed this then w
                 else emit (Console_error (Text ''Thread: could not find executor to destroy it!''
                        [case index this of Some i \<Rightarrow> Num (int i) | None \<Rightarrow> Undefined, e])) w))"
  by (simp add: destroy_current_def u_finCouldNotFindError_def andThen_def return_def split: option.splits)

lemma done_handler_returns:
  assumes "ringaEvent this = Ev a" "events w a = Some ev" "detail ev = Ref d" "debug w ev = Undefined"
    "doneHandler this = Fun g"
  shows "fst (u_executorDoneHandler DEV (this, w)) = Inr ()"
proof -
  let ?w1 = "case all_at this (index this) of
               Some x \<Rightarrow> emit (Destroy (Ref (e_ref x))) w
             | None \<Rightarrow> if destroyed this then w
                 else emit (Console_error (Text ''Thread: could not find executor to destroy it!''
                        [case index this of Some i \<Rightarrow> Num (int i) | None \<Rightarrow> Undefined, Undefined])) w"
  have 1: "destroy_current Undefined (this, w) = (Inr (all_at this (index this)), (this, ?w1))"
    by (simp add: destroy_current_eq)
  have e1: "events ?w1 a = Some ev" "debug ?w1 ev = Undefined"
    using assms by (simp_all add: debug_frame events_frame split: option.splits)
  have 2: "ringaEvent_addDebug m (this, ?w1) = (Inr (), (this, ?w1))" for m
    using assms(1) e1 by (rule ringaEvent_addDebug_off)
  let ?t = "this\<lparr>index := map_option Suc (index this)\<rparr>"
  let ?w2 = "if truthy (get_prop ?w1 (Ref d) ''_promise'') then delete_prop d ''_promise'' ?w1 else ?w1"
  have 3: "delete_detail_promise (?t, ?w1) = (Inr (), (?t, ?w2))"
    using assms e1 by (intro delete_detail_promise_object) simp_all
  have 4: "fst (call_doneHandler (?t, ?w2)) = Inr ()" "fst (snd (call_doneHandler (?t, ?w2))) = ?t"
    using assms(5) by (simp_all add: call_doneHandler_def)
  have 5: "fst (removeExecutor DEV x s) = Inr ()" for x s
    by (cases s) (simp add: removeExecutor_def Let_def)
  have 6: "(\<lambda>(this, w). (Inr (), (this\<lparr>index := map_option Suc (index this)\<rparr>, w))) (this, ?w1)
             = (Inr (), (?t, ?w1))" by simp
  let ?x = "all_at this (index this)"
  have "u_executorDoneHandler DEV (this, w) =
     (\<lambda>(this, w).
        if (case index this of Some i \<Rightarrow> i < length (all this) | None \<Rightarrow> False)
        then (Inr (), (this, emit (SetTimeout_executeNext (Ref (thread_ref this))) w))
        else andThen call_doneHandler (\<lambda>_. removeExecutor DEV ?x) (this, w)) (?t, ?w2)"
  proof -
    have a1: "andThen (destroy_current Undefined) h (this, w) = h ?x (this, ?w1)" for h :: "thread_executor option \<Rightarrow> (Thread \<times> world, unit) call"
      using 1 by (simp add: andThen_def)
    have a2: "andThen (ringaEvent_addDebug m) h (this, ?w1) = h () (this, ?w1)" for m and h :: "unit \<Rightarrow> (Thread \<times> world, unit) call"
      using 2 [of m] by (simp add: andThen_def)
    have a3: "andThen (\<lambda>(this, w). (Inr (), (this\<lparr>index := map_option Suc (index this)\<rparr>, w))) h (this, ?w1)
                = h () (?t, ?w1)" for h :: "unit \<Rightarrow> (Thread \<times> world, unit) call"
      by (simp add: andThen_def)
    have a4: "andThen delete_detail_promise h (?t, ?w1) = h () (?t, ?w2)" for h :: "unit \<Rightarrow> (Thread \<times> world, unit) call"
      using 3 by (simp add: andThen_def)
    show ?thesis
      unfolding u_executorDoneHandler_def by (simp only: a1 a2 a3 a4)
  qed
  also have "fst \<dots> = Inr ()"
  proof (cases "case index ?t of Some i \<Rightarrow> i < length (all ?t) | None \<Rightarrow> False")
    case True
    then show ?thesis by simp
  next
    case False
    have c: "call_doneHandler (?t, ?w2) = (Inr (), (?t, emit (DoneHandler_call (Fun g) (Ref (thread_ref ?t))) ?w2))"
      using assms(5) by (simp add: call_doneHandler_def)
    have "andThen call_doneHandler (\<lambda>_. removeExecutor DEV ?x) (?t, ?w2)
            = removeExecutor DEV ?x (?t, emit (DoneHandler_call (Fun g) (Ref (thread_ref ?t))) ?w2)"
      using c by (simp add: andThen_def)
    then show ?thesis using False 5 by simp
  qed
  finally show ?thesis .
qed

lemma fail_handler_returns:
  assumes "ringaEvent this = Ev a" "events w a = Some ev" "detail ev = Ref d" "debug w ev = Undefined"
    "failHandler this = Fun f" "doneHandler this = Fun g"
  shows "fst (u_executorFailHandler DEV e k (this, w)) = Inr ()"
proof -
  let ?w1 = "case all_at this (index this) of
               Some x \<Rightarrow> emit (Destroy (Ref (e_ref x))) w
             | None \<Rightarrow> if destroyed this then w
                 else emit (Console_error (Text ''Thread: could not find executor to destroy it!''
                        [case index this of Some i \<Rightarrow> Num (int i) | None \<Rightarrow> Undefined, e])) w"
  let ?x = "all_at this (index this)"
  have 1: "destroy_current e (this, w) = (Inr ?x, (this, ?w1))"
    by (simp add: destroy_current_eq)
  have e1: "events ?w1 a = Some ev" "debug ?w1 ev = Undefined"
    using assms by (simp_all add: debug_frame events_frame split: option.splits)
  have 2: "ringaEvent_addDebug m (this, ?w1) = (Inr (), (this, ?w1))" for m
    using assms(1) e1 by (rule ringaEvent_addDebug_off)
  let ?t = "this\<lparr>error := e\<rparr>"
  have 6: "(\<lambda>(this, w). (Inr (), (this\<lparr>error := e\<rparr>, w))) (this, ?w1) = (Inr (), (?t, ?w1))" by simp
  let ?w3 = "emit (FailHandler_call (Fun f) (Ref (thread_ref this)) e k) ?w1"
  have 7: "call_failHandler e k (?t, ?w1) = (Inr (), (?t, ?w3))"
    using assms(5) by (simp add: call_failHandler_def)
  have e3: "events ?w3 a = Some ev" "debug ?w3 ev = Undefined"
    using e1 by (simp_all add: debug_frame events_frame)
  let ?w4 = "if truthy (get_prop ?w3 (Ref d) ''_promise'') then delete_prop d ''_promise'' ?w3 else ?w3"
  have 3: "delete_detail_promise (?t, ?w3) = (Inr (), (?t, ?w4))"
    using assms e3 by (intro delete_detail_promise_object) simp_all
  have e4: "events ?w4 a = Some ev" "debug ?w4 ev = Undefined"
    using e3 by (simp_all add: debug_frame events_frame)
  have 5: "fst (removeExecutor DEV x s) = Inr ()" for x s
    by (cases s) (simp add: removeExecutor_def Let_def)
  have "u_executorFailHandler DEV e k (this, w) =
     (if \<not> truthy k then u_executorDoneHandler DEV else removeExecutor DEV ?x) (?t, ?w4)"
  proof -
    have a1: "andThen (destroy_current e) h (this, w) = h ?x (this, ?w1)" for h :: "thread_executor option \<Rightarrow> (Thread \<times> world, unit) call"
      using 1 by (simp add: andThen_def)
    have a2: "andThen (ringaEvent_addDebug m) h (this, ?w1) = h () (this, ?w1)" for m and h :: "unit \<Rightarrow> (Thread \<times> world, unit) call"
      using 2 [of m] by (simp add: andThen_def)
    have a3: "andThen (\<lambda>(this, w). (Inr (), (this\<lparr>error := e\<rparr>, w))) h (this, ?w1)
                = h () (?t, ?w1)" for h :: "unit \<Rightarrow> (Thread \<times> world, unit) call"
      by (simp add: andThen_def)
    have a5: "andThen (call_failHandler e k) h (?t, ?w1) = h () (?t, ?w3)" for h :: "unit \<Rightarrow> (Thread \<times> world, unit) call"
      using 7 by (simp add: andThen_def)
    have a4: "andThen delete_detail_promise h (?t, ?w3) = h () (?t, ?w4)" for h :: "unit \<Rightarrow> (Thread \<times> world, unit) call"
      using 3 by (simp add: andThen_def)
    show ?thesis
      unfolding u_executorFailHandler_def by (simp only: a1 a2 a3 a5 a4)
  qed
  also have "fst \<dots> = Inr ()"
  proof (cases "truthy k")
    case True
    then show ?thesis by (simp add: 5)
  next
    case False
    have "fst (u_executorDoneHandler DEV (?t, ?w4)) = Inr ()"
      using assms e4 by (intro done_handler_returns [of ?t a ?w4 ev d g]) simp_all
    with False show ?thesis by simp
  qed
  finally show ?thesis .
qed

lemmas thread_defs = run_def executeNext_def u_execute_def u_executorFailHandler_def u_executorDoneHandler_def
  destroy_current_def call_failHandler_def call_doneHandler_def delete_detail_promise_def
  ringaEvent_addDebug_def u_finCouldNotFindError_def removeExecutor_def kill_def buildExecutors_def
  all_at_def executor_val_def add_item_def has_item_def remove_item_def Thread_new_def delete_prop_def
  addDebug_def debug_def get_prop_def bag_of_def emit_def with_event_def andThen_def return_def throw_def

lemmas thread_example_defs = ex_thread_def ex_factory_def started_thread_def torn_down_thread_def
  ex_world_def ex_event_def RingaEvent_fields_def

lemma run_example:
  "run True (Ev 1) (Fun 100) (Fun 101) (ex_thread [Stays_pending, Stays_pending]) = (Inr (), started_thread)"
  by (simp add: thread_defs thread_example_defs)





lemma ignores_running_andThen:
  assumes "ignores_running f" "\<And>x. ignores_running (g x)"
  shows "ignores_running (andThen f g)"
  unfolding ignores_running_def
proof (intro allI)
  fix this w b
  obtain r1 this1 w1 where 1: "f (this, w) = (r1, (this1, w1))" by (metis prod.exhaust)
  with assms(1) have 2: "f (this\<lparr>running := b\<rparr>, w) = (r1, (this1\<lparr>running := b\<rparr>, w1))"
    unfolding ignores_running_def by simp
  show "andThen f g (this\<lparr>running := b\<rparr>, w) =
        (case andThen f g (this, w) of (r, (this', w')) \<Rightarrow> (r, (this'\<lparr>running := b\<rparr>, w')))"
  proof (cases r1)
    case (Inl e)
    with 1 2 show ?thesis by (simp add: andThen_def)
  next
    case (Inr x)
    with 1 2 assms(2) [of x] show ?thesis
      unfolding ignores_running_def by (simp add: andThen_def)
  qed
qed

lemma ignores_running_if:
  assumes "\<And>this b. c (this\<lparr>running := b\<rparr>) = c this" "ignores_running f" "ignores_running g"
  shows "ignores_running (\<lambda>(this, w). if c this then f (this, w) else g (this, w))"
  using assms unfolding ignores_running_def by (auto split: prod.splits)

lemma ignores_running_return: "ignores_running (return x)"
  by (simp add: ignores_running_def return_def)

lemma ignores_running_throw: "ignores_running (throw x)"
  by (simp add: ignores_running_def throw_def)

lemma ignores_running_destroy_current: "ignores_running (destroy_current e)"
  by (auto simp: ignores_running_def destroy_current_def u_finCouldNotFindError_def all_at_def
      andThen_def return_def split: option.splits)

lemma ignores_running_ringaEvent_addDebug: "ignores_running (ringaEvent_addDebug m)"
  by (auto simp: ignores_running_def ringaEvent_addDebug_def split: val.splits prod.splits)

lemma ignores_running_delete_detail_promise: "ignores_running delete_detail_promise"
  by (auto simp: ignores_running_def delete_detail_promise_def split: val.splits option.splits)

lemma ignores_running_call_doneHandler: "ignores_running call_doneHandler"
  by (auto simp: ignores_running_def call_doneHandler_def split: val.splits)

lemma ignores_running_call_failHandler: "ignores_running (call_failHandler e k)"
  by (auto simp: ignores_running_def call_failHandler_def split: val.splits)

lemma ignores_running_removeExecutor: "ignores_running (removeExecutor DEV x)"
  by (auto simp: ignores_running_def removeExecutor_def Let_def has_item_def remove_item_def
      split: option.splits)

lemma ignores_running_done_handler: "ignores_running (u_executorDoneHandler DEV)"
  unfolding u_executorDoneHandler_def
proof (intro ignores_running_andThen ignores_running_destroy_current ignores_running_ringaEvent_addDebug
    ignores_running_delete_detail_promise)
  show "ignores_running (\<lambda>(this, w). (Inr (), this\<lparr>index := map_option Suc (index this)\<rparr>, w))"
    by (simp add: ignores_running_def)
  fix x
  have a: "ignores_running (andThen call_doneHandler (\<lambda>_. removeExecutor DEV x))"
    by (intro ignores_running_andThen ignores_running_call_doneHandler ignores_running_removeExecutor)
  show "ignores_running (\<lambda>(this, w).
           if case index this of None \<Rightarrow> False | Some i \<Rightarrow> i < length (all this)
           then (Inr (), this, emit (SetTimeout_executeNext (Ref (thread_ref this))) w)
           else andThen call_doneHandler (\<lambda>_. removeExecutor DEV x) (this, w))"
    using a unfolding ignores_running_def by (auto split: option.splits)
qed

lemma ignores_running_fail_handler: "ignores_running (u_executorFailHandler DEV e k)"
  unfolding u_executorFailHandler_def
proof (intro ignores_running_andThen ignores_running_destroy_current ignores_running_ringaEvent_addDebug
    ignores_running_delete_detail_promise ignores_running_call_failHandler)
  show "ignores_running (\<lambda>(this, w). (Inr (), this\<lparr>error := e\<rparr>, w))"
    by (simp add: ignores_running_def)
  fix x
  show "ignores_running (if \<not> truthy k then u_executorDoneHandler DEV else removeExecutor DEV x)"
    by (simp add: ignores_running_done_handler ignores_running_removeExecutor)
qed

lemma ignores_running_u_execute: "ignores_running (u_execute DEV x)"
proof (cases x)
  case None
  then show ?thesis by (simp add: u_execute_def ignores_running_throw)
next
  case (Some e)
  have "ignores_running (case e_behaviour e of
            Stays_pending \<Rightarrow> return ()
          | Calls_done \<Rightarrow> u_executorDoneHandler DEV
          | Calls_fail error' kill' \<Rightarrow> u_executorFailHandler DEV error' kill'
          | Throws err \<Rightarrow> throw err)"
    by (cases "e_behaviour e")
       (simp_all add: ignores_running_return ignores_running_throw ignores_running_done_handler
          ignores_running_fail_handler)
  with Some show ?thesis
    unfolding u_execute_def
    by (auto intro!: ignores_running_andThen) (simp add: ignores_running_def)
qed

lemma ignores_running_executeNext: "ignores_running (executeNext DEV)"
  unfolding ignores_running_def
proof (intro allI)
  fix this w b
  let ?x = "all_at this (index this)"
  let ?pre = "if (case index this of Some i \<Rightarrow> 0 < i | None \<Rightarrow> False)
              then removeExecutor DEV (all_at this (map_option (\<lambda>i. i - 1) (index this)))
              else return ()"
  let ?tried = "andThen (ringaEvent_addDebug (Text ''Executing: '' [executor_val ?x])) (\<lambda>_. u_execute DEV ?x)"
  let ?body = "\<lambda>s. case ?tried s of
         (Inl err, s') \<Rightarrow> u_executorFailHandler DEV (caught_value err) Undefined s'
       | (Inr u, s') \<Rightarrow> (Inr u, s')"
  have x: "all_at (this\<lparr>running := b\<rparr>) i = all_at this i" for i
    by (simp add: all_at_def split: option.splits)
  have e1: "executeNext DEV (this, w) = andThen ?pre (\<lambda>_. ?body) (this, w)"
    by (simp add: executeNext_def Let_def)
  have e2: "executeNext DEV (this\<lparr>running := b\<rparr>, w) = andThen ?pre (\<lambda>_. ?body) (this\<lparr>running := b\<rparr>, w)"
    by (simp add: executeNext_def Let_def x)
  have p: "ignores_running ?pre"
    by (simp add: ignores_running_removeExecutor ignores_running_return)
  have t: "ignores_running ?tried"
    by (intro ignores_running_andThen ignores_running_ringaEvent_addDebug ignores_running_u_execute)
  have bd: "ignores_running ?body"
    unfolding ignores_running_def
  proof (intro allI)
    fix this w b
    obtain r1 this1 w1 where 1: "?tried (this, w) = (r1, (this1, w1))" by (metis prod.exhaust)
    with t have 2: "?tried (this\<lparr>running := b\<rparr>, w) = (r1, (this1\<lparr>running := b\<rparr>, w1))"
      unfolding ignores_running_def by simp
    show "?body (this\<lparr>running := b\<rparr>, w) =
          (case ?body (this, w) of (r, (this', w')) \<Rightarrow> (r, (this'\<lparr>running := b\<rparr>, w')))"
    proof (cases r1)
      case (Inl err)
      with 1 2 ignores_running_fail_handler [of DEV "caught_value err" Undefined] show ?thesis
        unfolding ignores_running_def by simp
    next
      case (Inr u)
      with 1 2 show ?thesis by simp
    qed
  qed
  have "ignores_running (andThen ?pre (\<lambda>_. ?body))"
    by (intro ignores_running_andThen p bd)
  with e1 e2 show "executeNext DEV (this\<lparr>running := b\<rparr>, w) =
       (case executeNext DEV (this, w) of (r, (this', w')) \<Rightarrow> (r, (this'\<lparr>running := b\<rparr>, w')))"
    unfolding ignores_running_def by simp
qed


text \<open>
  Claim C5, as amended. \<open>kill()\<close> clears the running flag and changes nothing else of
  the thread: what has been executed stays, and the executor in flight is not touched.
  Nothing that runs later reads the flag: after \<open>kill()\<close> the done-handler, the
  fail-handler and \<open>executeNext\<close> return and do what they do without it, so the
  following executors are still started.
\<close>

theorem kill_only_clears_running_flag:
  "kill this = this\<lparr>running := False\<rparr> \<and>
   u_executorDoneHandler DEV (kill this, w) =
     (case u_executorDoneHandler DEV (this, w) of (r, (this', w')) \<Rightarrow> (r, (kill this', w'))) \<and>
   u_executorFailHandler DEV e k (kill this, w) =
     (case u_executorFailHandler DEV e k (this, w) of (r, (this', w')) \<Rightarrow> (r, (kill this', w'))) \<and>
   executeNext DEV (kill this, w) =
     (case executeNext DEV (this, w) of (r, (this', w')) \<Rightarrow> (r, (kill this', w')))"
  using ignores_running_done_handler [of DEV] ignores_running_fail_handler [of DEV e k]
    ignores_running_executeNext [of DEV]
  unfolding ignores_running_def kill_def by simp

text \<open>
  Claim C5 fails as stated: after \<open>kill()\<close> on the started thread, the executor in flight
  completes, the scheduled \<open>executeNext\<close> runs, and the second executor is started.
\<close>

theorem kill_does_not_stop_next_executor:
  "running (kill (fst started_thread)) = False \<and>
   fst (andThen (u_executorDoneHandler True) (\<lambda>_. executeNext True) (kill (fst started_thread), snd started_thread))
     = Inr () \<and>
   out (snd (snd (andThen (u_executorDoneHandler True) (\<lambda>_. executeNext True)
                    (kill (fst started_thread), snd started_thread)))) =
     [Execute (Ref 3), Destroy (Ref 3), SetTimeout_executeNext (Ref 2),
      InspectorDispatch ''ringaExecutorEnd'' (Ref 3), Execute (Ref 4)]"
  by (simp add: thread_defs thread_example_defs)

text \<open>
  Claim C6, as amended. In a development build (\<open>__DEV__\<close> true) \<open>run\<close> throws at
  once, leaving the thread and the store as they were, when the running flag of the thread
  is set, when the list of executor factories is empty, and when the dispatch handle is
  falsy.
\<close>

theorem run_guards_in_development:
  "(running this \<longrightarrow>
      run True ev dh fh (this, w) = (Inl Error_thread_already_running, (this, w))) \<and>
   (\<not> running this \<and> tf_all (threadFactory this) = [] \<longrightarrow>
      run True ev dh fh (this, w) = (Inl Error_thread_no_executors, (this, w))) \<and>
   (\<not> running this \<and> tf_all (threadFactory this) \<noteq> [] \<and> \<not> truthy ev \<longrightarrow>
      run True ev dh fh (this, w) = (Inl Error_thread_without_RingaEvent, (this, w)))"
  by (simp add: run_def)

theorem run_guards_in_development_witness:
  "running ((fst started_thread)\<lparr>running := True\<rparr>) \<and>
   run True (Ev 1) (Fun 100) (Fun 101) ((fst started_thread)\<lparr>running := True\<rparr>, snd started_thread)
     = (Inl Error_thread_already_running, ((fst started_thread)\<lparr>running := True\<rparr>, snd started_thread)) \<and>
   \<not> running (fst (ex_thread [])) \<and> tf_all (threadFactory (fst (ex_thread []))) = [] \<and>
   run True (Ev 1) (Fun 100) (Fun 101) (ex_thread []) = (Inl Error_thread_no_executors, ex_thread []) \<and>
   \<not> running (fst (ex_thread [Stays_pending])) \<and> tf_all (threadFactory (fst (ex_thread [Stays_pending]))) \<noteq> [] \<and>
   \<not> truthy Undefined \<and>
   run True Undefined (Fun 100) (Fun 101) (ex_thread [Stays_pending])
     = (Inl Error_thread_without_RingaEvent, ex_thread [Stays_pending])"
proof -
  have a: "running ((fst started_thread)\<lparr>running := True\<rparr>)" by simp
  have b: "\<not> running (fst (ex_thread [])) \<and> tf_all (threadFactory (fst (ex_thread []))) = []"
    by (simp add: ex_thread_def ex_factory_def Thread_new_def)
  have c: "\<not> running (fst (ex_thread [Stays_pending])) \<and>
           tf_all (threadFactory (fst (ex_thread [Stays_pending]))) \<noteq> [] \<and> \<not> truthy Undefined"
    by (simp add: ex_thread_def ex_factory_def Thread_new_def)
  show ?thesis
    using run_guards_in_development [of "(fst started_thread)\<lparr>running := True\<rparr>" "Ev 1" "Fun 100" "Fun 101" "snd started_thread"]
      run_guards_in_development [of "fst (ex_thread [])" "Ev 1" "Fun 100" "Fun 101" "snd (ex_thread [])"]
      run_guards_in_development [of "fst (ex_thread [Stays_pending])" Undefined "Fun 100" "Fun 101" "snd (ex_thread [Stays_pending])"]
      a b c
    by simp
qed

text \<open>
  Claim C6 fails as stated: in a production build \<open>run\<close> on a thread without executor
  factories returns; and since \<open>run\<close> never sets the running flag, a second \<open>run\<close> in
  a development build, while the first executor of the first run is in flight, returns
  as well.
\<close>

theorem run_without_guard_counterexample:
  "fst (run False (Ev 1) (Fun 100) (Fun 101) (ex_thread [])) = Inr () \<and>
   run True (Ev 1) (Fun 100) (Fun 101) (ex_thread [Stays_pending, Stays_pending]) = (Inr (), started_thread) \<and>
   fst (run True (Ev 1) (Fun 100) (Fun 101) started_thread) = Inr ()"
  by (simp add: thread_defs thread_example_defs)

text \<open>
  Claim C7, as amended. On a destroyed thread with no executor at the current index, the
  check for the missing executor is silent: no console entry, nothing thrown, thread and
  store unchanged. The handler then goes on as it does otherwise: a done-handler that
  returns has advanced the index and called the caller's \<open>doneHandler\<close>; a fail-handler
  that returns has recorded the error and called the caller's \<open>failHandler\<close>. Both
  return when the handle has its debug output off and a plain object as value bag, and
  the callbacks are functions.
\<close>

theorem destroyed_thread_missing_executor:
  assumes d: "destroyed this" and m: "all_at this (index this) = None"
  shows "u_finCouldNotFindError e (this, w) = (Inr (), (this, w)) \<and>
         destroy_current e (this, w) = (Inr None, (this, w)) \<and>
         (u_executorDoneHandler DEV (this, w) = (Inr (), (this', w')) \<longrightarrow>
            index this' = map_option Suc (index this) \<and>
            (\<exists>es. out w' = out w @ es \<and>
                  DoneHandler_call (doneHandler this) (Ref (thread_ref this)) \<in> set es)) \<and>
         (u_executorFailHandler DEV e k (this, w) = (Inr (), (this'', w'')) \<longrightarrow>
            error this'' = e \<and>
            (\<exists>es. out w'' = out w @ es \<and>
                  FailHandler_call (failHandler this) (Ref (thread_ref this)) e k \<in> set es)) \<and>
         (ringaEvent this = Ev a \<and> events w a = Some ev \<and> detail ev = Ref d \<and>
          debug w ev = Undefined \<and> failHandler this = Fun f \<and> doneHandler this = Fun g \<longrightarrow>
            fst (u_executorDoneHandler DEV (this, w)) = Inr () \<and>
            fst (u_executorFailHandler DEV e k (this, w)) = Inr ())"
proof -
  have 1: "u_finCouldNotFindError e (this, w) = (Inr (), (this, w))"
    using d by (simp add: u_finCouldNotFindError_def)
  have 2: "destroy_current e (this, w) = (Inr None, (this, w))"
    using d m by (simp add: destroy_current_def u_finCouldNotFindError_def andThen_def return_def)
  have c: "\<not> (case index t of Some i \<Rightarrow> Suc i < length (all t) | None \<Rightarrow> False)"
    if "all_at t (index t) = None" for t :: Thread
    using that by (auto simp: all_at_def split: option.splits if_splits)
  have 3: "index this' = map_option Suc (index this) \<and>
            (\<exists>es. out w' = out w @ es \<and>
                  DoneHandler_call (doneHandler this) (Ref (thread_ref this)) \<in> set es)"
    if r: "u_executorDoneHandler DEV (this, w) = (Inr (), (this', w'))"
    using done_handler_result [OF r] c [OF m] by auto
  have 4: "error this'' = e \<and>
            (\<exists>es. out w'' = out w @ es \<and>
                  FailHandler_call (failHandler this) (Ref (thread_ref this)) e k \<in> set es)"
    if r: "u_executorFailHandler DEV e k (this, w) = (Inr (), (this'', w''))"
  proof -
    from fail_handler_report [OF r] obtain w1 es where
      eq: "u_executorFailHandler DEV e k (this, w) =
             (if \<not> truthy k then u_executorDoneHandler DEV
              else removeExecutor DEV (all_at this (index this))) (this\<lparr>error := e\<rparr>, w1)"
      and o: "out w1 = out w @ es @ [FailHandler_call (failHandler this) (Ref (thread_ref this)) e k]"
      by blast
    have "error this'' = e \<and> (\<exists>es2. out w'' = out w1 @ es2)"
    proof (cases "truthy k")
      case True
      with eq r have "removeExecutor DEV (all_at this (index this)) (this\<lparr>error := e\<rparr>, w1) = (Inr (), (this'', w''))"
        by simp
      from removeExecutor_step [OF this] show ?thesis by auto
    next
      case False
      with eq r have dd: "u_executorDoneHandler DEV (this\<lparr>error := e\<rparr>, w1) = (Inr (), (this'', w''))"
        by simp
      from done_handler_result [OF dd] show ?thesis by (auto split: if_splits)
    qed
    then obtain es2 where "error this'' = e" "out w'' = out w1 @ es2" by blast
    with o have "out w'' = out w @ (es @ [FailHandler_call (failHandler this) (Ref (thread_ref this)) e k] @ es2)"
      by simp
    moreover have "FailHandler_call (failHandler this) (Ref (thread_ref this)) e k
        \<in> set (es @ [FailHandler_call (failHandler this) (Ref (thread_ref this)) e k] @ es2)" by simp
    ultimately show ?thesis using \<open>error this'' = e\<close> by blast
  qed
  have 5: "fst (u_executorDoneHandler DEV (this, w)) = Inr () \<and>
           fst (u_executorFailHandler DEV e k (this, w)) = Inr ()"
    if "ringaEvent this = Ev a \<and> events w a = Some ev \<and> detail ev = Ref d \<and>
        debug w ev = Undefined \<and> failHandler this = Fun f \<and> doneHandler this = Fun g"
    using that done_handler_returns [of this a w ev d g DEV]
      fail_handler_returns [of this a w ev d f g DEV e k] by blast
  from 1 2 3 4 5 show ?thesis by blast
qed

text \<open>A late completion and a late fatal failure on the torn-down thread.\<close>

lemma torn_down_done_example:
  "u_executorDoneHandler True torn_down_thread =
     (Inr (), ((fst torn_down_thread)\<lparr>index := Some 1\<rparr>,
        (snd torn_down_thread)\<lparr>out := [Execute (Ref 3), DoneHandler_call (Fun 100) (Ref 2),
           InspectorDispatch ''ringaExecutorEnd'' Undefined]\<rparr>))"
  by (simp add: thread_defs thread_example_defs)

lemma torn_down_fail_example:
  "u_executorFailHandler True (Str ''late'') (Bool True) torn_down_thread =
     (Inr (), ((fst torn_down_thread)\<lparr>error := Str ''late''\<rparr>,
        (snd torn_down_thread)\<lparr>out := [Execute (Ref 3),
           FailHandler_call (Fun 101) (Ref 2) (Str ''late'') (Bool True),
           InspectorDispatch ''ringaExecutorEnd'' Undefined]\<rparr>))"
  by (simp add: thread_defs thread_example_defs)


theorem destroyed_thread_missing_executor_witness:
  "destroyed (fst torn_down_thread) \<and> all_at (fst torn_down_thread) (index (fst torn_down_thread)) = None \<and>
   u_finCouldNotFindError Undefined torn_down_thread = (Inr (), torn_down_thread) \<and>
   u_executorDoneHandler True torn_down_thread =
     (Inr (), ((fst torn_down_thread)\<lparr>index := Some 1\<rparr>,
        (snd torn_down_thread)\<lparr>out := [Execute (Ref 3), DoneHandler_call (Fun 100) (Ref 2),
           InspectorDispatch ''ringaExecutorEnd'' Undefined]\<rparr>)) \<and>
   index ((fst torn_down_thread)\<lparr>index := Some 1\<rparr>) = map_option Suc (index (fst torn_down_thread)) \<and>
   u_executorFailHandler True (Str ''late'') (Bool True) torn_down_thread =
     (Inr (), ((fst torn_down_thread)\<lparr>error := Str ''late''\<rparr>,
        (snd torn_down_thread)\<lparr>out := [Execute (Ref 3),
           FailHandler_call (Fun 101) (Ref 2) (Str ''late'') (Bool True),
           InspectorDispatch ''ringaExecutorEnd'' Undefined]\<rparr>)) \<and>
   error ((fst torn_down_thread)\<lparr>error := Str ''late''\<rparr>) = Str ''late'' \<and>
   ringaEvent (fst torn_down_thread) = Ev 1 \<and> events (snd torn_down_thread) 1 = Some ex_event \<and>
   detail ex_event = Ref 0 \<and> debug (snd torn_down_thread) ex_event = Undefined \<and>
   failHandler (fst torn_down_thread) = Fun 101 \<and> doneHandler (fst torn_down_thread) = Fun 100 \<and>
   fst (u_executorDoneHandler True torn_down_thread) = Inr ()"
proof -
  let ?t = "fst torn_down_thread" and ?w = "snd torn_down_thread"
  let ?t1 = "?t\<lparr>index := Some 1\<rparr>"
  let ?w1 = "?w\<lparr>out := [Execute (Ref 3), DoneHandler_call (Fun 100) (Ref 2),
           InspectorDispatch ''ringaExecutorEnd'' Undefined]\<rparr>"
  let ?t2 = "?t\<lparr>error := Str ''late''\<rparr>"
  let ?w2 = "?w\<lparr>out := [Execute (Ref 3),
           FailHandler_call (Fun 101) (Ref 2) (Str ''late'') (Bool True),
           InspectorDispatch ''ringaExecutorEnd'' Undefined]\<rparr>"
  have d: "destroyed ?t" by (simp add: torn_down_thread_def)
  have m: "all_at ?t (index ?t) = None"
    by (simp add: torn_down_thread_def started_thread_def all_at_def)
  have dn: "u_executorDoneHandler True (?t, ?w) = (Inr (), (?t1, ?w1))"
    using torn_down_done_example by simp
  have fl: "u_executorFailHandler True (Str ''late'') (Bool True) (?t, ?w) = (Inr (), (?t2, ?w2))"
    using torn_down_fail_example by simp
  have n: "ringaEvent ?t = Ev 1 \<and> events ?w 1 = Some ex_event \<and> detail ex_event = Ref 0 \<and>
           debug ?w ex_event = Undefined \<and> failHandler ?t = Fun 101 \<and> doneHandler ?t = Fun 100"
    by (simp add: torn_down_thread_def started_thread_def ex_world_def ex_event_def RingaEvent_fields_def
        debug_def get_prop_def bag_of_def)
  note th1 = destroyed_thread_missing_executor [OF d m, where e = Undefined and w = ?w and DEV = True
      and this' = ?t1 and w' = ?w1 and a = 1 and ev = ex_event and d = 0 and f = 101 and g = 100]
  note th2 = destroyed_thread_missing_executor [OF d m, where e = "Str ''late''" and w = ?w and DEV = True
      and k = "Bool True" and this'' = ?t2 and w'' = ?w2]
  from th1 have a: "u_finCouldNotFindError Undefined (?t, ?w) = (Inr (), (?t, ?w))" by (rule conjunct1)
  from th1 dn have b: "index ?t1 = map_option Suc (index ?t)" by blast
  from th2 fl have c: "error ?t2 = Str ''late''" by blast
  from th1 n have e: "fst (u_executorDoneHandler True (?t, ?w)) = Inr ()" by blast
  from d m a b c dn fl n e show ?thesis by (simp only: prod.collapse simp_thms)
qed

text \<open>
  Claim C7 fails as stated: on the torn-down thread the done-handler calls the caller's
  \<open>doneHandler\<close> and advances the index, and the fail-handler calls the caller's
  \<open>failHandler\<close>.
\<close>

theorem destroyed_handler_is_no_noop:
  "destroyed (fst torn_down_thread) \<and>
   all_at (fst torn_down_thread) (index (fst torn_down_thread)) = None \<and>
   u_executorDoneHandler True torn_down_thread =
     (Inr (), ((fst torn_down_thread)\<lparr>index := Some 1\<rparr>,
        (snd torn_down_thread)\<lparr>out := [Execute (Ref 3), DoneHandler_call (Fun 100) (Ref 2),
           InspectorDispatch ''ringaExecutorEnd'' Undefined]\<rparr>)) \<and>
   u_executorDoneHandler True torn_down_thread \<noteq> (Inr (), torn_down_thread) \<and>
   u_executorFailHandler True (Str ''late'') (Bool True) torn_down_thread =
     (Inr (), ((fst torn_down_thread)\<lparr>error := Str ''late''\<rparr>,
        (snd torn_down_thread)\<lparr>out := [Execute (Ref 3),
           FailHandler_call (Fun 101) (Ref 2) (Str ''late'') (Bool True),
           InspectorDispatch ''ringaExecutorEnd'' Undefined]\<rparr>))"
proof -
  have d: "destroyed (fst torn_down_thread)" by (simp add: torn_down_thread_def)
  have m: "all_at (fst torn_down_thread) (index (fst torn_down_thread)) = None"
    by (simp add: torn_down_thread_def started_thread_def all_at_def)
  have n: "index (fst torn_down_thread) = Some 0" by (simp add: torn_down_thread_def started_thread_def)
  have ne: "u_executorDoneHandler True torn_down_thread \<noteq> (Inr (), torn_down_thread)"
  proof
    assume "u_executorDoneHandler True torn_down_thread = (Inr (), torn_down_thread)"
    then have "index (fst (snd (u_executorDoneHandler True torn_down_thread))) = index (fst torn_down_thread)"
      by simp
    moreover have "index (fst (snd (u_executorDoneHandler True torn_down_thread))) = Some 1"
      by (simp add: torn_down_done_example)
    ultimately show False using n by simp
  qed
  from d m ne torn_down_done_example torn_down_fail_example show ?thesis by (simp only: simp_thms)
qed

end
